theory Spec2Isabelle
  imports Main
begin

section \<open>JavaScript values and objects\<close>

text \<open>
  The values that the blockchain service stores in its result objects: \<open>undefined\<close>,
  \<open>null\<close>, strings, big integers (the \<open>uint256\<close> arguments of a decoded event) and
  plain numbers (a log index).
\<close>

datatype jsval = JUndefined | JNull | JStr string | JBig nat | JNum int

text \<open>Decimal rendering of a non-negative integer, as \<open>BigInt.prototype.toString\<close> gives it.\<close>

fun toString_nat :: "nat \<Rightarrow> string" where
  "toString_nat n =
     (if n < 10 then [''0123456789'' ! n]
      else toString_nat (n div 10) @ [''0123456789'' ! (n mod 10)])"

declare toString_nat.simps [simp del]

text \<open>
  \<open>v.toString()\<close>: a \<open>TypeError\<close> on \<open>undefined\<close> and \<open>null\<close> (the value \<open>None\<close>),
  the string itself on a string, the decimal digits on an integer.
\<close>

definition toString :: "jsval \<Rightarrow> string option" where
  "toString v =
     (case v of
        JUndefined \<Rightarrow> None
      | JNull \<Rightarrow> None
      | JStr s \<Rightarrow> Some s
      | JBig n \<Rightarrow> Some (toString_nat n)
      | JNum i \<Rightarrow> Some (if i < 0 then ''-'' @ toString_nat (nat (- i)) else toString_nat (nat i)))"

text \<open>An object literal is the list of its keys and values; a missing key reads as \<open>undefined\<close>.\<close>

type_synonym event = "(string \<times> jsval) list"

definition field :: "event \<Rightarrow> string \<Rightarrow> jsval" where
  "field ev k = (case map_of ev k of None \<Rightarrow> JUndefined | Some v \<Rightarrow> v)"

text \<open>\<open>args[i]\<close> of a decoded event: \<open>undefined\<close> beyond the end.\<close>

definition arg :: "jsval list \<Rightarrow> nat \<Rightarrow> jsval" where
  "arg as i = (if i < length as then as ! i else JUndefined)"

section \<open>Raw logs, the library and the parsed bundle\<close>

record raw_log =
  address :: string
  topics :: "string list"
  data :: string
  logIndex :: int
  transactionIndex :: int
  blockNumber :: int

datatype family = ERC20 | ERC721 | MonadDummyContract

text \<open>
  \<open>Interface.parseLog\<close> belongs to the ethers library, not to this repository. A call
  has three outcomes that \<open>parseLogs\<close> tells apart: it throws, it returns \<open>null\<close>, or it
  returns a description with the event's name and its arguments.
\<close>

datatype parse_result = Throws | Null | Parsed string "jsval list"

text \<open>
  What \<open>parseLogs\<close> calls outside the repository: \<open>parseLog\<close> of the interface built from
  each of the three ABIs, \<open>ethers.getAddress\<close> (\<open>None\<close> when it throws) and the built-in
  \<open>BigInt\<close> on a string (\<open>None\<close> when it throws a \<open>SyntaxError\<close>).
\<close>

record runtime =
  parseLog :: "family \<Rightarrow> raw_log \<Rightarrow> parse_result"
  getAddress :: "string \<Rightarrow> string option"
  BigInt :: "string \<Rightarrow> nat option"

record param =
  ptype :: string
  pvalue :: string

record unknown_event =
  ue_type :: string
  ue_eventSignature :: jsval
  ue_from :: "string option"
  ue_to :: "string option"
  ue_amount :: "string option"
  ue_indexedParams :: "param list"
  ue_nonIndexedParams :: "param list"
  ue_logIndex :: int
  ue_rawData :: string

record parsed_logs =
  transfers :: "event list"
  failures :: "event list"
  partialTransfers :: "event list"
  contractType :: "string option"
  contractInfo :: "string \<rightharpoonup> jsval"
  unknownEvents :: "unknown_event list"

definition emptyBundle :: parsed_logs where
  "emptyBundle =
     \<lparr>transfers = [], failures = [], partialTransfers = [], contractType = None,
      contractInfo = Map.empty, unknownEvents = []\<rparr>"

text \<open>The outcome of a \<open>try\<close> block: it threw, or it ran to its end with a result.\<close>

datatype 'a attempt = Thrown | Done 'a

section \<open>parseLogs: the three schema attempts\<close>

text \<open>
  Each attempt returns the bundle and the flag \<open>parsed\<close>. An exception leaves the bundle
  as it was: the pushed object literal is evaluated, \<open>toString\<close> calls included, before
  \<open>push\<close> runs.
\<close>

definition tryERC20 :: "runtime \<Rightarrow> raw_log \<Rightarrow> parsed_logs \<Rightarrow> (parsed_logs \<times> bool) attempt" where
  "tryERC20 rt log b =
     (case parseLog rt ERC20 log of
        Throws \<Rightarrow> Thrown
      | Null \<Rightarrow> Done (b, False)
      | Parsed nm as \<Rightarrow>
          if nm = ''Transfer'' then
            (case toString (arg as 2) of
               None \<Rightarrow> Thrown
             | Some v \<Rightarrow>
                 Done (b\<lparr>transfers := transfers b @
                           [[(''type'', JStr ''ERC20''), (''from'', arg as 0), (''to'', arg as 1),
                             (''value'', JStr v), (''logIndex'', JNum (logIndex log))]],
                         contractType := Some ''ERC20''\<rparr>, True))
          else Done (b, False))"

definition tryERC721 :: "runtime \<Rightarrow> raw_log \<Rightarrow> parsed_logs \<Rightarrow> (parsed_logs \<times> bool) attempt" where
  "tryERC721 rt log b =
     (case parseLog rt ERC721 log of
        Throws \<Rightarrow> Thrown
      | Null \<Rightarrow> Done (b, False)
      | Parsed nm as \<Rightarrow>
          if nm = ''Transfer'' then
            (case toString (arg as 2) of
               None \<Rightarrow> Thrown
             | Some v \<Rightarrow>
                 Done (b\<lparr>transfers := transfers b @
                           [[(''type'', JStr ''ERC721''), (''from'', arg as 0), (''to'', arg as 1),
                             (''tokenId'', JStr v), (''logIndex'', JNum (logIndex log))]],
                         contractType := Some ''ERC721''\<rparr>, True))
          else Done (b, False))"

definition tryDummy :: "runtime \<Rightarrow> raw_log \<Rightarrow> parsed_logs \<Rightarrow> (parsed_logs \<times> bool) attempt" where
  "tryDummy rt log b =
     (case parseLog rt MonadDummyContract log of
        Throws \<Rightarrow> Thrown
      | Null \<Rightarrow> Done (b, False)
      | Parsed nm as \<Rightarrow>
          if nm = ''Transfer'' then
            (case toString (arg as 2) of
               None \<Rightarrow> Thrown
             | Some v \<Rightarrow>
                 Done (b\<lparr>transfers := transfers b @
                           [[(''type'', JStr ''MonadToken''), (''from'', arg as 0), (''to'', arg as 1),
                             (''amount'', JStr v), (''logIndex'', JNum (logIndex log))]],
                         contractType := Some ''MonadDummyContract''\<rparr>, True))
          else if nm = ''TransferFailed'' then
            (case toString (arg as 2) of
               None \<Rightarrow> Thrown
             | Some v \<Rightarrow>
                 Done (b\<lparr>failures := failures b @
                           [[(''type'', JStr ''TransferFailed''), (''from'', arg as 0),
                             (''to'', arg as 1), (''amount'', JStr v), (''reason'', arg as 3),
                             (''logIndex'', JNum (logIndex log))]],
                         contractType := Some ''MonadDummyContract''\<rparr>, True))
          else if nm = ''PartialTransfer'' then
            (case toString (arg as 2) of
               None \<Rightarrow> Thrown
             | Some v \<Rightarrow>
                 (case toString (arg as 3) of
                    None \<Rightarrow> Thrown
                  | Some w \<Rightarrow>
                      Done (b\<lparr>partialTransfers := partialTransfers b @
                                [[(''type'', JStr ''PartialTransfer''), (''from'', arg as 0),
                                  (''to'', arg as 1), (''requested'', JStr v), (''sent'', JStr w),
                                  (''logIndex'', JNum (logIndex log))]],
                              contractType := Some ''MonadDummyContract''\<rparr>, True)))
          else if nm = ''TokenMinted'' then
            (case toString (arg as 1) of
               None \<Rightarrow> Thrown
             | Some v \<Rightarrow>
                 Done (b\<lparr>transfers := transfers b @
                           [[(''type'', JStr ''TokenMinted''), (''to'', arg as 0),
                             (''tokenId'', JStr v), (''logIndex'', JNum (logIndex log))]],
                         contractType := Some ''MonadDummyContract''\<rparr>, True))
          else if nm = ''TokenTransferFailed'' then
            (case toString (arg as 2) of
               None \<Rightarrow> Thrown
             | Some v \<Rightarrow>
                 Done (b\<lparr>failures := failures b @
                           [[(''type'', JStr ''TokenTransferFailed''), (''from'', arg as 0),
                             (''to'', arg as 1), (''tokenId'', JStr v), (''reason'', arg as 3),
                             (''logIndex'', JNum (logIndex log))]],
                         contractType := Some ''MonadDummyContract''\<rparr>, True))
          else Done (b, False))"

text \<open>
  The nesting of the source: the ERC-721 attempt is the \<open>catch\<close> block of the ERC-20
  attempt and the dispute-contract attempt is the \<open>catch\<close> block of the ERC-721 attempt,
  so a later attempt runs only when the one before it threw.
\<close>

definition trySchemas :: "runtime \<Rightarrow> raw_log \<Rightarrow> parsed_logs \<Rightarrow> parsed_logs \<times> bool" where
  "trySchemas rt log b =
     (case tryERC20 rt log b of
        Done r \<Rightarrow> r
      | Thrown \<Rightarrow>
          (case tryERC721 rt log b of
             Done r \<Rightarrow> r
           | Thrown \<Rightarrow>
               (case tryDummy rt log b of
                  Done r \<Rightarrow> r
                | Thrown \<Rightarrow> (b, False))))"

section \<open>parseLogs: the fallback for a log no ABI parsed\<close>

text \<open>One topic after \<open>topics[0]\<close>.\<close>

definition decodeTopic :: "runtime \<Rightarrow> string \<Rightarrow> param" where
  "decodeTopic rt topic =
     (if length topic = 66 then
        (case getAddress rt (''0x'' @ drop 26 topic) of
           Some a \<Rightarrow> \<lparr>ptype = ''address'', pvalue = a\<rparr>
         | None \<Rightarrow> \<lparr>ptype = ''bytes32'', pvalue = topic\<rparr>)
      else \<lparr>ptype = ''bytes32'', pvalue = topic\<rparr>)"

text \<open>
  The loop over the data in steps of 64 hexadecimal digits: a full chunk becomes one
  parameter, a shorter last chunk none. A \<open>BigInt\<close> that throws is caught inside the
  loop, and nothing else in it can throw on a string, so the \<open>catch\<close> block around the
  loop is never entered.
\<close>

function decodeChunks :: "runtime \<Rightarrow> string \<Rightarrow> param list" where
  "decodeChunks rt s =
     (if s = [] then []
      else
        (let chunk = take 64 s in
           if length chunk = 64 then
             [case BigInt rt (''0x'' @ chunk) of
                Some v \<Rightarrow> \<lparr>ptype = ''uint256'', pvalue = toString_nat v\<rparr>
              | None \<Rightarrow> \<lparr>ptype = ''bytes'', pvalue = ''0x'' @ chunk\<rparr>]
           else [])
        @ decodeChunks rt (drop 64 s))"
  by pat_completeness auto
termination
  by (relation "measure (\<lambda>(rt, s). length s)") auto

declare decodeChunks.simps [simp del]

definition decodeData :: "runtime \<Rightarrow> string \<Rightarrow> param list" where
  "decodeData rt d = (if d \<noteq> [] \<and> d \<noteq> ''0x'' then decodeChunks rt (drop 2 d) else [])"

text \<open>
  The event built for a log that no ABI parsed; \<open>topics[0]\<close> reads as \<open>undefined\<close> on a
  log without topics, for which the caller does not build the event.
\<close>

definition heuristicEvent :: "runtime \<Rightarrow> raw_log \<Rightarrow> unknown_event" where
  "heuristicEvent rt log =
     (let eventSignature = (case topics log of [] \<Rightarrow> JUndefined | t # ts \<Rightarrow> JStr t);
          indexedParams = map (decodeTopic rt) (tl (topics log));
          nonIndexedParams = decodeData rt (data log);
          ev = \<lparr>ue_type = ''Unknown'', ue_eventSignature = eventSignature, ue_from = None,
                ue_to = None, ue_amount = None, ue_indexedParams = indexedParams,
                ue_nonIndexedParams = nonIndexedParams, ue_logIndex = logIndex log,
                ue_rawData = data log\<rparr>
      in
        if length indexedParams \<ge> 2 \<and> ptype (indexedParams ! 0) = ''address''
           \<and> ptype (indexedParams ! 1) = ''address''
        then ev\<lparr>ue_from := Some (pvalue (indexedParams ! 0)),
                ue_to := Some (pvalue (indexedParams ! 1)),
                ue_type := ''Transfer'',
                ue_amount :=
                  (if nonIndexedParams \<noteq> [] \<and> ptype (nonIndexedParams ! 0) = ''uint256''
                   then Some (pvalue (nonIndexedParams ! 0)) else None)\<rparr>
        else if length indexedParams \<ge> 1 \<and> ptype (indexedParams ! 0) = ''address''
        then ev\<lparr>ue_from := Some (pvalue (indexedParams ! 0)), ue_type := ''SingleAddress''\<rparr>
        else ev)"

text \<open>\<open>!parsedLogs.contractType\<close>: true on \<open>null\<close> and on the empty string.\<close>

definition unset :: "string option \<Rightarrow> bool" where
  "unset c = (case c of None \<Rightarrow> True | Some s \<Rightarrow> s = [])"

definition addUnknown :: "runtime \<Rightarrow> raw_log \<Rightarrow> parsed_logs \<Rightarrow> parsed_logs" where
  "addUnknown rt log b =
     b\<lparr>unknownEvents := unknownEvents b @ [heuristicEvent rt log],
       contractType := (if unset (contractType b) then Some ''Unknown'' else contractType b)\<rparr>"

section \<open>parseLogs\<close>

text \<open>One round of the loop over the logs.\<close>

definition parseLogs_step :: "runtime \<Rightarrow> parsed_logs \<Rightarrow> raw_log \<Rightarrow> parsed_logs" where
  "parseLogs_step rt b log =
     (case trySchemas rt log b of
        (b', parsed) \<Rightarrow> if \<not> parsed \<and> topics log \<noteq> [] then addUnknown rt log b' else b')"

text \<open>
  The contract address is used only to build three contract handles that the function
  never reads, so the result does not depend on it; building them is taken to succeed.
  Each exception of the loop body is caught inside it, so the \<open>catch\<close> block around the
  loop is not entered either.
\<close>

definition parseLogs :: "runtime \<Rightarrow> raw_log list \<Rightarrow> string \<Rightarrow> parsed_logs" where
  "parseLogs rt logs contractAddress = foldl (parseLogs_step rt) emptyBundle logs"

section \<open>getContractState\<close>

text \<open>
  The read-only calls on the contract at the given address. They belong to the chain, not
  to the repository: each is given by its outcome, \<open>None\<close> when the awaited call rejects.
\<close>

record contract_reads =
  symbol :: "string option"
  name :: "string option"
  decimals :: "nat option"
  getTotalSupply :: "nat option"
  getNextTokenId :: "nat option"
  balanceOf :: "string \<Rightarrow> nat option"
  ownerOf :: "jsval \<Rightarrow> string option"

record contract_state =
  balances :: "string \<rightharpoonup> string"
  ownership :: "string \<rightharpoonup> string"
  state_contractInfo :: "string \<rightharpoonup> jsval"

definition emptyState :: contract_state where
  "emptyState = \<lparr>balances = Map.empty, ownership = Map.empty, state_contractInfo = Map.empty\<rparr>"

text \<open>An address argument that may be \<open>null\<close>, as a value and as a condition.\<close>

definition addressValue :: "string option \<Rightarrow> jsval" where
  "addressValue a = (case a of None \<Rightarrow> JNull | Some s \<Rightarrow> JStr s)"

text \<open>The string under which a value is used as a property key.\<close>

definition propertyKey :: "jsval \<Rightarrow> string" where
  "propertyKey v =
     (case v of
        JUndefined \<Rightarrow> ''undefined''
      | JNull \<Rightarrow> ''null''
      | JStr s \<Rightarrow> s
      | JBig n \<Rightarrow> toString_nat n
      | JNum i \<Rightarrow> (if i < 0 then ''-'' @ toString_nat (nat (- i)) else toString_nat (nat i)))"

text \<open>
  The three metadata reads of the ERC-20 branch share one \<open>try\<close> block, each assigned as
  soon as it returns: the first one that fails ends the block.
\<close>

definition readInfoERC20 :: "contract_reads \<Rightarrow> (string \<rightharpoonup> jsval) \<Rightarrow> (string \<rightharpoonup> jsval)" where
  "readInfoERC20 c info =
     (case symbol c of
        None \<Rightarrow> info
      | Some s \<Rightarrow>
          (let info1 = info(''symbol'' \<mapsto> JStr s) in
             case name c of
               None \<Rightarrow> info1
             | Some n \<Rightarrow>
                 (let info2 = info1(''name'' \<mapsto> JStr n) in
                    case decimals c of
                      None \<Rightarrow> info2
                    | Some d \<Rightarrow> info2(''decimals'' \<mapsto> JBig d))))"

definition readInfoERC721 :: "contract_reads \<Rightarrow> (string \<rightharpoonup> jsval) \<Rightarrow> (string \<rightharpoonup> jsval)" where
  "readInfoERC721 c info =
     (case symbol c of
        None \<Rightarrow> info
      | Some s \<Rightarrow>
          (let info1 = info(''symbol'' \<mapsto> JStr s) in
             case name c of
               None \<Rightarrow> info1
             | Some n \<Rightarrow> info1(''name'' \<mapsto> JStr n)))"

definition readInfoMonad :: "contract_reads \<Rightarrow> (string \<rightharpoonup> jsval) \<Rightarrow> (string \<rightharpoonup> jsval)" where
  "readInfoMonad c info =
     (case getTotalSupply c of
        None \<Rightarrow> info
      | Some t \<Rightarrow>
          (let info1 = info(''totalSupply'' \<mapsto> JBig t) in
             case getNextTokenId c of
               None \<Rightarrow> info1
             | Some n \<Rightarrow> info1(''nextTokenId'' \<mapsto> JBig n)))"

definition readBalance :: "contract_reads \<Rightarrow> string option \<Rightarrow> (string \<rightharpoonup> string) \<Rightarrow> (string \<rightharpoonup> string)" where
  "readBalance c toAddress bal =
     (case toAddress of
        None \<Rightarrow> bal
      | Some a \<Rightarrow>
          if a = [] then bal
          else (case balanceOf c a of
                  None \<Rightarrow> bal
                | Some v \<Rightarrow> bal(a \<mapsto> toString_nat v)))"

text \<open>One round of the loop over the transfers, for the event type the branch looks for.\<close>

definition ownershipStep ::
  "contract_reads \<Rightarrow> string \<Rightarrow> string option \<Rightarrow> (string \<rightharpoonup> string) \<Rightarrow> event \<Rightarrow> (string \<rightharpoonup> string)" where
  "ownershipStep c ty toAddress own transfer =
     (if field transfer ''type'' = JStr ty \<and> field transfer ''to'' = addressValue toAddress then
        (case ownerOf c (field transfer ''tokenId'') of
           None \<Rightarrow> own
         | Some owner \<Rightarrow> own(propertyKey (field transfer ''tokenId'') \<mapsto> owner))
      else own)"

definition getContractState ::
  "contract_reads \<Rightarrow> string \<Rightarrow> string option \<Rightarrow> parsed_logs \<Rightarrow> contract_state" where
  "getContractState c contractAddress toAddress parsedLogs =
     (if contractType parsedLogs = Some ''ERC20'' then
        \<lparr>balances = readBalance c toAddress Map.empty,
         ownership = Map.empty,
         state_contractInfo = readInfoERC20 c Map.empty\<rparr>
      else if contractType parsedLogs = Some ''ERC721'' then
        \<lparr>balances = readBalance c toAddress Map.empty,
         ownership = foldl (ownershipStep c ''ERC721'' toAddress) Map.empty (transfers parsedLogs),
         state_contractInfo = readInfoERC721 c Map.empty\<rparr>
      else if contractType parsedLogs = Some ''MonadDummyContract'' then
        \<lparr>balances = readBalance c toAddress Map.empty,
         ownership = foldl (ownershipStep c ''TokenMinted'' toAddress) Map.empty (transfers parsedLogs),
         state_contractInfo = readInfoMonad c Map.empty\<rparr>
      else emptyState)"

section \<open>getHistoricalLogs\<close>

text \<open>
  The two provider calls, each \<open>None\<close> when it rejects, and the calls a run makes, in
  order.
\<close>

record provider =
  getBlockNumber :: "int option"
  getLogs :: "string \<Rightarrow> int \<Rightarrow> int \<Rightarrow> raw_log list option"

datatype rpc_call = GetBlockNumber | GetLogs string int int

text \<open>\<open>fromBlock || Math.max(0, currentBlock - 1000)\<close>: \<open>null\<close> and \<open>0\<close> are falsy.\<close>

definition getHistoricalLogs ::
  "provider \<Rightarrow> string \<Rightarrow> int option \<Rightarrow> raw_log list \<times> rpc_call list" where
  "getHistoricalLogs p contractAddress fromBlock =
     (case getBlockNumber p of
        None \<Rightarrow> ([], [GetBlockNumber])
      | Some currentBlock \<Rightarrow>
          (let toBlock = currentBlock;
               fromBlockNumber =
                 (case fromBlock of
                    None \<Rightarrow> max 0 (currentBlock - 1000)
                  | Some f \<Rightarrow> if f = 0 then max 0 (currentBlock - 1000) else f)
           in case getLogs p contractAddress fromBlockNumber toBlock of
                None \<Rightarrow> ([], [GetBlockNumber, GetLogs contractAddress fromBlockNumber toBlock])
              | Some logs \<Rightarrow>
                  (logs, [GetBlockNumber, GetLogs contractAddress fromBlockNumber toBlock])))"

section \<open>analyzeTransactionPattern\<close>

record transaction =
  tx_to :: "string option"
  tx_data :: string
  tx_value :: int

record receipt =
  status :: int
  gasUsed :: "nat option"
  logs :: "raw_log list"

record analysis =
  transactionType :: string
  valueTransferred :: string
  eventsEmitted :: nat
  contractInteraction :: bool
  success :: bool
  analysis_gasUsed :: string
  patterns :: "string list"

text \<open>One round of the loop over the unknown events.\<close>

definition eventPattern :: "analysis \<Rightarrow> unknown_event \<Rightarrow> analysis" where
  "eventPattern a ev =
     (if ue_type ev = ''Transfer'' \<and> \<not> unset (ue_amount ev) then
        a\<lparr>patterns := patterns a @ [''TOKEN_TRANSFER''],
          valueTransferred := (case ue_amount ev of Some v \<Rightarrow> v | None \<Rightarrow> [])\<rparr>
      else if ue_type ev = ''SingleAddress'' then
        a\<lparr>patterns := patterns a @ [''SINGLE_ADDRESS_EVENT'']\<rparr>
      else a)"

definition analyzeTransactionPattern :: "transaction \<Rightarrow> receipt \<Rightarrow> parsed_logs \<Rightarrow> analysis" where
  "analyzeTransactionPattern tx rc parsedLogs =
     (let a0 = \<lparr>transactionType = ''unknown'', valueTransferred = ''0'', eventsEmitted = 0,
                contractInteraction = False, success = (status rc = 1),
                analysis_gasUsed = (case gasUsed rc of None \<Rightarrow> ''0'' | Some g \<Rightarrow> toString_nat g),
                patterns = []\<rparr>;
          a1 = (if \<not> unset (tx_to tx) \<and> tx_data tx \<noteq> [] \<and> tx_data tx \<noteq> ''0x''
                then a0\<lparr>contractInteraction := True\<rparr> else a0);
          a2 = (if tx_value tx \<noteq> 0 \<and> tx_value tx > 0
                then a1\<lparr>valueTransferred := toString_nat (nat (tx_value tx)),
                        patterns := patterns a1 @ [''ETH_TRANSFER'']\<rparr>
                else a1);
          a3 = (if length (unknownEvents parsedLogs) > 0
                then foldl eventPattern
                       (a2\<lparr>eventsEmitted := length (unknownEvents parsedLogs)\<rparr>)
                       (unknownEvents parsedLogs)
                else a2)
      in
        if ''ETH_TRANSFER'' \<in> set (patterns a3) \<and> contractInteraction a3
        then a3\<lparr>transactionType := ''contract_eth_transfer''\<rparr>
        else if ''TOKEN_TRANSFER'' \<in> set (patterns a3)
        then a3\<lparr>transactionType := ''token_transfer''\<rparr>
        else if contractInteraction a3
        then a3\<lparr>transactionType := ''contract_call''\<rparr>
        else if ''ETH_TRANSFER'' \<in> set (patterns a3)
        then a3\<lparr>transactionType := ''eth_transfer''\<rparr>
        else a3)"

section \<open>initProvider\<close>

text \<open>
  The environment of the provider: the two URL variables, and whether building the
  provider and awaiting \<open>getNetwork\<close> succeed at the attempt of the given number.
\<close>

record environment =
  MONAD_RPC_URL :: "string option"
  ETHEREUM_RPC_URL :: "string option"
  connects :: "nat \<Rightarrow> bool"

definition rpcUrl :: "environment \<Rightarrow> string option" where
  "rpcUrl env = (if \<not> unset (MONAD_RPC_URL env) then MONAD_RPC_URL env else ETHEREUM_RPC_URL env)"

text \<open>
  The body of the \<open>try\<close> block runs to its end when the connection is made and the
  success message can be built; \<open>rpcUrl.includes\<close> throws on an undefined URL.
\<close>

definition attemptSucceeds :: "environment \<Rightarrow> nat \<Rightarrow> bool" where
  "attemptSucceeds env k = (connects env k \<and> rpcUrl env \<noteq> None)"

definition maxRetries :: nat where
  "maxRetries = 3"

datatype init_event = Attempt nat | Wait nat

datatype init_outcome = Connected nat | InitError string | NoAttempt

text \<open>
  The \<open>while\<close> loop, with what it has done so far: attempts by their number, waits by
  their length in milliseconds.
\<close>

function initProvider_loop ::
  "environment \<Rightarrow> nat \<Rightarrow> init_event list \<Rightarrow> init_outcome \<times> init_event list" where
  "initProvider_loop env retries tr =
     (if retries < maxRetries then
        (if attemptSucceeds env (retries + 1) then
           (Connected (retries + 1), tr @ [Attempt (retries + 1)])
         else
           (let retries' = retries + 1 in
              if retries' \<ge> maxRetries then
                (InitError ''Failed to initialize provider after 3 attempts'',
                 tr @ [Attempt retries'])
              else
                initProvider_loop env retries' (tr @ [Attempt retries', Wait (1000 * retries')])))
      else (NoAttempt, tr))"
  by pat_completeness auto
termination
  by (relation "measure (\<lambda>(env, retries, tr). maxRetries - retries)") auto

declare initProvider_loop.simps [simp del]

definition initProvider :: "environment \<Rightarrow> init_outcome \<times> init_event list" where
  "initProvider env = initProvider_loop env 0 []"

section \<open>resolveDispute: from the receipt to the pattern analysis\<close>

record dispute_data =
  dd_parsedLogs :: parsed_logs
  dd_contractState :: contract_state
  dd_historicalLogs :: "raw_log list"
  dd_patternAnalysis :: analysis
  dd_rpcCalls :: "rpc_call list"

text \<open>\<open>toAddress || null\<close>.\<close>

definition orNull :: "string option \<Rightarrow> string option" where
  "orNull a = (if unset a then None else a)"

text \<open>Step 4 of the handler: the parsed logs after it, the historical logs, the calls made.\<close>

definition historicalStep ::
  "runtime \<Rightarrow> provider \<Rightarrow> string \<Rightarrow> parsed_logs \<Rightarrow> parsed_logs \<times> raw_log list \<times> rpc_call list" where
  "historicalStep rt p contractAddress parsedLogs =
     (if length (transfers parsedLogs) = 0 then
        (case getHistoricalLogs p contractAddress None of
           (historicalLogs, calls) \<Rightarrow>
             (let historicalParsedLogs = parseLogs rt historicalLogs contractAddress in
                (parsedLogs\<lparr>transfers := transfers parsedLogs @ transfers historicalParsedLogs\<rparr>,
                 historicalLogs, calls)))
      else (parsedLogs, [], []))"

text \<open>
  Steps 2 to 5 of the handler; \<open>None\<close> is the early 404 answer for a missing receipt. The
  contract state is read before the historical step, from the logs of the receipt alone.
\<close>

definition resolveDispute ::
  "runtime \<Rightarrow> provider \<Rightarrow> contract_reads \<Rightarrow> receipt option \<Rightarrow> transaction \<Rightarrow> string
     \<Rightarrow> string option \<Rightarrow> dispute_data option" where
  "resolveDispute rt p c rcpt tx contractAddress toAddress =
     (case rcpt of
        None \<Rightarrow> None
      | Some rc \<Rightarrow>
          (let parsedLogs = parseLogs rt (logs rc) contractAddress;
               contractState = getContractState c contractAddress (orNull toAddress) parsedLogs
           in case historicalStep rt p contractAddress parsedLogs of
                (parsedLogs', historicalLogs, calls) \<Rightarrow>
                  Some \<lparr>dd_parsedLogs = parsedLogs',
                        dd_contractState = contractState,
                        dd_historicalLogs = historicalLogs,
                        dd_patternAnalysis = analyzeTransactionPattern tx rc parsedLogs',
                        dd_rpcCalls = calls\<rparr>))"

section \<open>Sample logs and a sample runtime\<close>

text \<open>
  The topic of an event is the Keccak-256 hash of its signature. These are the topics of
  \<open>Transfer(address,address,uint256)\<close>, shared by the three ABIs, and of three events of
  the dispute contract: \<open>TransferFailed(address,address,uint256,string)\<close>,
  \<open>PartialTransfer(address,address,uint256,uint256)\<close> and \<open>TokenMinted(address,uint256)\<close>.
\<close>

definition topic_Transfer :: string where
  "topic_Transfer = ''0xddf252ad1be2c89b69c2b068fc378daa952ba7f163c4a11628f55a4df523b3ef''"

definition topic_TransferFailed :: string where
  "topic_TransferFailed = ''0x84591632da3297cac8d3bfdd6ff974faf08443fe6e72f89ed83076fe8aaa2592''"

definition topic_PartialTransfer :: string where
  "topic_PartialTransfer = ''0x9f1fc1c52d833d5ed3379115d740bde74bf4b092d20b1de727a45271e037e7ce''"

definition topic_TokenMinted :: string where
  "topic_TokenMinted = ''0xb9144c96c86541f6fa89c9f2f02495cccf4b08cd6643e26d34ee00aa586558a8''"

text \<open>The topic of \<open>Deposit(address,uint256)\<close>, an event of none of the three ABIs.\<close>

definition topic_Deposit :: string where
  "topic_Deposit = ''0xe1fffcc4923d04b559f4d29a8bfc6cda04eb5b0d3c460751c2402c5c5cc9109c''"

text \<open>Two addresses without letters, which a checksum leaves as they are.\<close>

definition alice :: string where
  "alice = ''0x1111111111111111111111111111111111111111''"

definition bob :: string where
  "bob = ''0x2222222222222222222222222222222222222222''"

definition alice_topic :: string where
  "alice_topic = ''0x0000000000000000000000001111111111111111111111111111111111111111''"

definition bob_topic :: string where
  "bob_topic = ''0x0000000000000000000000002222222222222222222222222222222222222222''"

text \<open>An ERC-20 transfer of 500 from the first address to the second.\<close>

definition log_erc20 :: raw_log where
  "log_erc20 =
     \<lparr>address = ''0x3333333333333333333333333333333333333333'',
      topics = [topic_Transfer, alice_topic, bob_topic],
      data = ''0x00000000000000000000000000000000000000000000000000000000000001f4'',
      logIndex = 0, transactionIndex = 0, blockNumber = 100\<rparr>"

text \<open>An ERC-721 transfer of token 7: the token is a fourth topic and there is no data.\<close>

definition log_erc721 :: raw_log where
  "log_erc721 =
     \<lparr>address = ''0x3333333333333333333333333333333333333333'',
      topics = [topic_Transfer, alice_topic, bob_topic,
                ''0x0000000000000000000000000000000000000000000000000000000000000007''],
      data = ''0x'',
      logIndex = 1, transactionIndex = 0, blockNumber = 100\<rparr>"

text \<open>
  Scenario A: \<open>TransferFailed\<close> from the first address to the second, amount 1500, reason
  "Amount too high: exceeds 1000". The data is the ABI encoding of the amount and the
  string: the amount, the offset 64 of the string, its length 29 and its bytes.
\<close>

definition log_failed :: raw_log where
  "log_failed =
     \<lparr>address = ''0x3333333333333333333333333333333333333333'',
      topics = [topic_TransferFailed, alice_topic, bob_topic],
      data = ''0x00000000000000000000000000000000000000000000000000000000000005dc0000000000000000000000000000000000000000000000000000000000000040000000000000000000000000000000000000000000000000000000000000001d416d6f756e7420746f6f20686967683a20657863656564732031303030000000'',
      logIndex = 2, transactionIndex = 0, blockNumber = 100\<rparr>"

text \<open>\<open>PartialTransfer\<close>: 1000 requested, 500 sent.\<close>

definition log_partial :: raw_log where
  "log_partial =
     \<lparr>address = ''0x3333333333333333333333333333333333333333'',
      topics = [topic_PartialTransfer, alice_topic, bob_topic],
      data = ''0x00000000000000000000000000000000000000000000000000000000000003e800000000000000000000000000000000000000000000000000000000000001f4'',
      logIndex = 3, transactionIndex = 0, blockNumber = 100\<rparr>"

text \<open>\<open>TokenMinted\<close>: token 7 minted to the first address.\<close>

definition log_minted :: raw_log where
  "log_minted =
     \<lparr>address = ''0x3333333333333333333333333333333333333333'',
      topics = [topic_TokenMinted, alice_topic],
      data = ''0x0000000000000000000000000000000000000000000000000000000000000007'',
      logIndex = 4, transactionIndex = 0, blockNumber = 100\<rparr>"

text \<open>A deposit of 500 by the first address: an event the three ABIs do not have.\<close>

definition log_deposit :: raw_log where
  "log_deposit =
     \<lparr>address = ''0x3333333333333333333333333333333333333333'',
      topics = [topic_Deposit, alice_topic],
      data = ''0x00000000000000000000000000000000000000000000000000000000000001f4'',
      logIndex = 6, transactionIndex = 0, blockNumber = 100\<rparr>"

text \<open>A log without topics.\<close>

definition log_anonymous :: raw_log where
  "log_anonymous =
     \<lparr>address = ''0x3333333333333333333333333333333333333333'',
      topics = [],
      data = ''0x0000000000000000000000000000000000000000000000000000000000000007'',
      logIndex = 5, transactionIndex = 0, blockNumber = 100\<rparr>"

text \<open>
  What \<open>parseLog\<close> of ethers version 6 (the version whose names the service uses:
  \<open>ethers.Interface\<close>, \<open>ethers.getAddress\<close>, \<open>ethers.JsonRpcProvider\<close>) answers on the
  sample logs. It returns \<open>null\<close> when the interface has no event with the topic of the
  log, throws when the event is found and the topics or the data are too short for its
  parameters, and throws on a log without topics. Other logs are outside the table.
\<close>

definition sample_parseLog :: "family \<Rightarrow> raw_log \<Rightarrow> parse_result" where
  "sample_parseLog f log =
     (if topics log = [] then Throws
      else if log = log_erc20 then
        (case f of
           ERC20 \<Rightarrow> Parsed ''Transfer'' [JStr alice, JStr bob, JBig 500]
         | ERC721 \<Rightarrow> Throws
         | MonadDummyContract \<Rightarrow> Parsed ''Transfer'' [JStr alice, JStr bob, JBig 500])
      else if log = log_erc721 then
        (case f of
           ERC20 \<Rightarrow> Throws
         | ERC721 \<Rightarrow> Parsed ''Transfer'' [JStr alice, JStr bob, JBig 7]
         | MonadDummyContract \<Rightarrow> Throws)
      else if log = log_failed then
        (case f of
           ERC20 \<Rightarrow> Null
         | ERC721 \<Rightarrow> Null
         | MonadDummyContract \<Rightarrow>
             Parsed ''TransferFailed''
               [JStr alice, JStr bob, JBig 1500, JStr ''Amount too high: exceeds 1000''])
      else if log = log_partial then
        (case f of
           ERC20 \<Rightarrow> Null
         | ERC721 \<Rightarrow> Null
         | MonadDummyContract \<Rightarrow>
             Parsed ''PartialTransfer'' [JStr alice, JStr bob, JBig 1000, JBig 500])
      else if log = log_minted then
        (case f of
           ERC20 \<Rightarrow> Null
         | ERC721 \<Rightarrow> Null
         | MonadDummyContract \<Rightarrow> Parsed ''TokenMinted'' [JStr alice, JBig 7])
      else Null)"

text \<open>
  \<open>ethers.getAddress\<close> on \<open>0x\<close> and forty decimal digits returns the string; this
  stand-in rejects every other string.
\<close>

definition sample_getAddress :: "string \<Rightarrow> string option" where
  "sample_getAddress s =
     (if length s = 42 \<and> take 2 s = ''0x'' \<and> list_all (\<lambda>c. c \<in> set ''0123456789'') (drop 2 s)
      then Some s else None)"

text \<open>\<open>BigInt\<close> on \<open>0x\<close> and hexadecimal digits; this stand-in rejects every other string.\<close>

definition hexDigit :: "char \<Rightarrow> nat option" where
  "hexDigit c =
     map_of [(CHR ''0'', 0), (CHR ''1'', 1), (CHR ''2'', 2), (CHR ''3'', 3), (CHR ''4'', 4),
             (CHR ''5'', 5), (CHR ''6'', 6), (CHR ''7'', 7), (CHR ''8'', 8), (CHR ''9'', 9),
             (CHR ''a'', 10), (CHR ''b'', 11), (CHR ''c'', 12), (CHR ''d'', 13), (CHR ''e'', 14),
             (CHR ''f'', 15), (CHR ''A'', 10), (CHR ''B'', 11), (CHR ''C'', 12), (CHR ''D'', 13),
             (CHR ''E'', 14), (CHR ''F'', 15)] c"

fun hexValue :: "nat \<Rightarrow> string \<Rightarrow> nat option" where
  "hexValue acc [] = Some acc"
| "hexValue acc (c # cs) =
     (case hexDigit c of None \<Rightarrow> None | Some d \<Rightarrow> hexValue (16 * acc + d) cs)"

definition sample_BigInt :: "string \<Rightarrow> nat option" where
  "sample_BigInt s = (if take 2 s = ''0x'' \<and> drop 2 s \<noteq> [] then hexValue 0 (drop 2 s) else None)"

definition sample_runtime :: runtime where
  "sample_runtime =
     \<lparr>parseLog = sample_parseLog, getAddress = sample_getAddress, BigInt = sample_BigInt\<rparr>"


definition contract :: string where
  "contract = ''0x3333333333333333333333333333333333333333''"

section \<open>Sample surroundings of a request\<close>

text \<open>A chain at block 500 whose log query over the blocks 0 to 500 finds the ERC-20 transfer.\<close>

definition sample_provider :: provider where
  "sample_provider =
     \<lparr>getBlockNumber = Some 500,
      getLogs = (\<lambda>a f t. if a = contract \<and> f = 0 \<and> t = 500 then Some [log_erc20] else Some [])\<rparr>"

text \<open>A contract whose \<open>symbol\<close> call fails while every other call answers.\<close>

definition sample_reads :: contract_reads where
  "sample_reads =
     \<lparr>symbol = None, name = Some ''Dispute Token'', decimals = Some 18,
      getTotalSupply = Some 1000000, getNextTokenId = Some 8,
      balanceOf = (\<lambda>a. if a = bob then Some 500 else Some 0),
      ownerOf = (\<lambda>t. Some alice)\<rparr>"

text \<open>A transaction without value and without call data, and two receipts.\<close>

definition sample_transaction :: transaction where
  "sample_transaction = \<lparr>tx_to = Some bob, tx_data = ''0x'', tx_value = 0\<rparr>"

definition receipt_deposit :: receipt where
  "receipt_deposit = \<lparr>status = 1, gasUsed = Some 21000, logs = [log_deposit]\<rparr>"

definition receipt_erc20 :: receipt where
  "receipt_erc20 = \<lparr>status = 1, gasUsed = Some 21000, logs = [log_erc20]\<rparr>"

text \<open>An environment in which the connection is made at the third attempt.\<close>

definition sample_environment :: environment where
  "sample_environment =
     \<lparr>MONAD_RPC_URL = Some ''https://testnet-rpc.monad.xyz'', ETHEREUM_RPC_URL = None,
      connects = (\<lambda>k. k = 3)\<rparr>"

section \<open>Notions used in the statements\<close>

text \<open>
  What one log adds to a bundle, read off the run of the schema attempts on the empty
  bundle: \<open>merge\<close> puts it after what a bundle already holds.
\<close>

definition merge :: "parsed_logs \<Rightarrow> parsed_logs \<Rightarrow> parsed_logs" where
  "merge b e =
     b\<lparr>transfers := transfers b @ transfers e,
       failures := failures b @ failures e,
       partialTransfers := partialTransfers b @ partialTransfers e,
       contractType := (case contractType e of None \<Rightarrow> contractType b | Some f \<Rightarrow> Some f)\<rparr>"

text \<open>The contract type that the schema attempts assign for a log, \<open>None\<close> when none parsed it.\<close>

definition schemaFamily :: "runtime \<Rightarrow> raw_log \<Rightarrow> string option" where
  "schemaFamily rt log =
     (case trySchemas rt log emptyBundle of (b', parsed) \<Rightarrow> if parsed then contractType b' else None)"


text \<open>The number of events that a bundle holds, over its four sequences.\<close>

definition eventCount :: "parsed_logs \<Rightarrow> nat" where
  "eventCount b =
     length (transfers b) + length (failures b) + length (partialTransfers b)
       + length (unknownEvents b)"

section \<open>Properties of parseLogs\<close>

subsection \<open>Evaluation on the samples\<close>

lemmas sample_defs =
  sample_runtime_def sample_parseLog_def sample_getAddress_def sample_BigInt_def hexDigit_def
  log_erc20_def log_erc721_def log_failed_def log_partial_def log_minted_def log_anonymous_def log_deposit_def topic_Deposit_def
  topic_Transfer_def topic_TransferFailed_def topic_PartialTransfer_def topic_TokenMinted_def
  alice_def bob_def alice_topic_def bob_topic_def

lemmas parse_defs =
  parseLogs_def parseLogs_step_def trySchemas_def tryERC20_def tryERC721_def tryDummy_def
  toString_def arg_def emptyBundle_def addUnknown_def unset_def

lemmas heur_defs =
  heuristicEvent_def decodeTopic_def decodeData_def Let_def

subsection \<open>What a log adds does not depend on the bundle\<close>

lemma merge_empty [simp]: "merge b emptyBundle = b"
  by (simp add: merge_def emptyBundle_def)

lemma tryERC20_frame:
  "tryERC20 rt log b =
     (case tryERC20 rt log emptyBundle of Thrown \<Rightarrow> Thrown | Done (e, p) \<Rightarrow> Done (merge b e, p))"
  by (simp add: tryERC20_def merge_def emptyBundle_def split: parse_result.splits option.splits)

lemma tryERC721_frame:
  "tryERC721 rt log b =
     (case tryERC721 rt log emptyBundle of Thrown \<Rightarrow> Thrown | Done (e, p) \<Rightarrow> Done (merge b e, p))"
  by (simp add: tryERC721_def merge_def emptyBundle_def split: parse_result.splits option.splits)

lemma tryDummy_frame:
  "tryDummy rt log b =
     (case tryDummy rt log emptyBundle of Thrown \<Rightarrow> Thrown | Done (e, p) \<Rightarrow> Done (merge b e, p))"
  by (simp add: tryDummy_def merge_def emptyBundle_def split: parse_result.splits option.splits)

lemma trySchemas_frame:
  "trySchemas rt log b =
     (merge b (fst (trySchemas rt log emptyBundle)), snd (trySchemas rt log emptyBundle))"
proof -
  note f20 = tryERC20_frame [of rt log b]
  note f721 = tryERC721_frame [of rt log b]
  note fd = tryDummy_frame [of rt log b]
  show ?thesis
    unfolding trySchemas_def [of rt log b] f20 f721 fd
    by (simp add: trySchemas_def split: attempt.splits prod.splits)
qed

lemma tryERC20_empty:
  "tryERC20 rt log emptyBundle = Done (e, p) \<Longrightarrow>
     (if p then contractType e = Some ''ERC20'' else e = emptyBundle)"
  by (auto simp add: tryERC20_def emptyBundle_def split: parse_result.splits option.splits if_splits)

lemma tryERC721_empty:
  "tryERC721 rt log emptyBundle = Done (e, p) \<Longrightarrow>
     (if p then contractType e = Some ''ERC721'' else e = emptyBundle)"
  by (auto simp add: tryERC721_def emptyBundle_def split: parse_result.splits option.splits if_splits)

lemma tryDummy_empty:
  "tryDummy rt log emptyBundle = Done (e, p) \<Longrightarrow>
     (if p then contractType e = Some ''MonadDummyContract'' else e = emptyBundle)"
  by (auto simp add: tryDummy_def emptyBundle_def split: parse_result.splits option.splits if_splits)

lemma trySchemas_empty:
  "trySchemas rt log emptyBundle = (e, p) \<Longrightarrow>
     (if p then contractType e \<in> {Some ''ERC20'', Some ''ERC721'', Some ''MonadDummyContract''}
      else e = emptyBundle)"
  unfolding trySchemas_def
  by (auto split: attempt.splits if_splits
        dest!: tryERC20_empty tryERC721_empty tryDummy_empty)

lemma schemaFamily_names:
  "schemaFamily rt log = Some f \<Longrightarrow> f \<in> {''ERC20'', ''ERC721'', ''MonadDummyContract''}"
  unfolding schemaFamily_def
  by (auto split: prod.splits if_splits dest!: trySchemas_empty)

lemma schemaFamily_None:
  "schemaFamily rt log = None \<longleftrightarrow> \<not> snd (trySchemas rt log emptyBundle)"
  unfolding schemaFamily_def
  by (auto split: prod.splits if_splits dest!: trySchemas_empty)

lemma step_unparsed:
  "\<not> snd (trySchemas rt log emptyBundle) \<Longrightarrow>
     parseLogs_step rt b log = (if topics log \<noteq> [] then addUnknown rt log b else b)"
proof -
  assume np: "\<not> snd (trySchemas rt log emptyBundle)"
  obtain e p where ep: "trySchemas rt log emptyBundle = (e, p)" by (cases "trySchemas rt log emptyBundle")
  with np have "\<not> p" by simp
  with trySchemas_empty [OF ep] have "e = emptyBundle" by simp
  with ep \<open>\<not> p\<close> have "trySchemas rt log b = (b, False)"
    by (subst trySchemas_frame) simp
  then show ?thesis by (simp add: parseLogs_step_def)
qed

lemma step_parsed:
  "snd (trySchemas rt log emptyBundle) \<Longrightarrow>
     parseLogs_step rt b log = merge b (fst (trySchemas rt log emptyBundle))"
  by (subst parseLogs_step_def, subst trySchemas_frame) simp

lemma step_contractType:
  "contractType (parseLogs_step rt b log) =
     (case schemaFamily rt log of
        Some f \<Rightarrow> Some f
      | None \<Rightarrow>
          if topics log \<noteq> [] \<and> unset (contractType b) then Some ''Unknown'' else contractType b)"
proof (cases "snd (trySchemas rt log emptyBundle)")
  case True
  obtain e where ep: "trySchemas rt log emptyBundle = (e, True)"
    using True by (cases "trySchemas rt log emptyBundle") auto
  from trySchemas_empty [OF ep] obtain f where f: "contractType e = Some f" by auto
  with ep have "schemaFamily rt log = Some f" by (simp add: schemaFamily_def)
  moreover have "contractType (parseLogs_step rt b log) = Some f"
    using step_parsed [OF True, of b] ep f by (simp add: merge_def)
  ultimately show ?thesis by simp
next
  case False
  then have "schemaFamily rt log = None" by (simp add: schemaFamily_None)
  then show ?thesis using step_unparsed [OF False, of b] by (simp add: addUnknown_def)
qed

lemma map_filter_snoc:
  "List.map_filter f (xs @ [x]) = List.map_filter f xs @ (case f x of None \<Rightarrow> [] | Some y \<Rightarrow> [y])"
  by (simp add: List.map_filter_def split: option.splits)

lemma set_map_filter:
  "set (List.map_filter f xs) = {y. \<exists>x \<in> set xs. f x = Some y}"
  by (induction xs) (auto simp add: List.map_filter_def)

lemma foldl_contractType:
  "contractType (foldl (parseLogs_step rt) b ls) =
     (let fs = List.map_filter (schemaFamily rt) ls in
        if fs = [] then
          (if (\<exists>l \<in> set ls. topics l \<noteq> []) \<and> unset (contractType b)
           then Some ''Unknown'' else contractType b)
        else Some (last fs))"
proof (induction ls rule: rev_induct)
  case Nil
  then show ?case by (simp add: List.map_filter_def)
next
  case (snoc x xs)
  have names: "\<And>f. f \<in> set (List.map_filter (schemaFamily rt) xs) \<Longrightarrow> f \<noteq> []"
    by (auto simp add: set_map_filter dest!: schemaFamily_names)
  show ?case
  proof (cases "schemaFamily rt x")
    case (Some f)
    then show ?thesis by (simp add: step_contractType map_filter_snoc Let_def)
  next
    case None
    show ?thesis
    proof (cases "List.map_filter (schemaFamily rt) xs = []")
      case True
      with None snoc show ?thesis
        by (auto simp add: step_contractType map_filter_snoc Let_def unset_def)
    next
      case False
      then have "last (List.map_filter (schemaFamily rt) xs) \<noteq> []"
        using names last_in_set by blast
      with None False snoc show ?thesis
        by (simp add: step_contractType map_filter_snoc Let_def unset_def)
    qed
  qed
qed

subsection \<open>The contract type of a bundle\<close>

text \<open>
  Claim C1, as the code has it. Every log that a schema attempt parses assigns the
  contract type, with no test of the value already there; only the fallback, which
  assigns \<open>Unknown\<close>, is guarded. So after a batch the contract type is the one assigned
  for the last log that a schema attempt parsed; when no log was parsed that way it is
  \<open>Unknown\<close> if some log has a topic, and \<open>null\<close> otherwise.
\<close>

theorem contractType_last_schema:
  "contractType (parseLogs rt ls contractAddress) =
     (let fs = List.map_filter (schemaFamily rt) ls in
        if fs = [] then (if \<exists>l \<in> set ls. topics l \<noteq> [] then Some ''Unknown'' else None)
        else Some (last fs))"
  by (simp add: parseLogs_def foldl_contractType Let_def unset_def emptyBundle_def)

text \<open>
  The statement at four sample logs: a deposit, an ERC-721 transfer, an ERC-20 transfer
  and a failed transfer that the schema attempts do not reach.
\<close>

theorem contractType_last_schema_witness:
  "contractType (parseLogs sample_runtime [log_deposit, log_erc721, log_erc20, log_failed] contract)
     = Some ''ERC20''"
  using contractType_last_schema [of sample_runtime "[log_deposit, log_erc721, log_erc20, log_failed]" contract]
  by (simp add: schemaFamily_def trySchemas_def tryERC20_def tryERC721_def tryDummy_def
        toString_def arg_def emptyBundle_def sample_defs toString_nat.simps List.map_filter_def)

text \<open>
  Claim C1 as the specification states it fails: the ERC-721 transfer sets the contract
  type first, and the ERC-20 transfer after it in the same batch replaces it.
\<close>

theorem contractType_overwritten:
  "contractType (parseLogs sample_runtime [log_erc721] contract) = Some ''ERC721''
   \<and> contractType (parseLogs sample_runtime [log_erc721, log_erc20] contract) = Some ''ERC20''"
  by (simp add: parse_defs sample_defs toString_nat.simps)

subsection \<open>One event for a log\<close>

text \<open>
  A round of the loop adds one event to the bundle when a schema attempt parsed the log
  or the log has a topic, and none otherwise: no log gives two events.
\<close>

lemma tryERC20_count:
  "tryERC20 rt log emptyBundle = Done (e, p) \<Longrightarrow>
     eventCount e = (if p then 1 else 0) \<and> unknownEvents e = []"
  by (auto simp add: tryERC20_def emptyBundle_def eventCount_def
        split: parse_result.splits option.splits if_splits)

lemma tryERC721_count:
  "tryERC721 rt log emptyBundle = Done (e, p) \<Longrightarrow>
     eventCount e = (if p then 1 else 0) \<and> unknownEvents e = []"
  by (auto simp add: tryERC721_def emptyBundle_def eventCount_def
        split: parse_result.splits option.splits if_splits)

lemma tryDummy_count:
  "tryDummy rt log emptyBundle = Done (e, p) \<Longrightarrow>
     eventCount e = (if p then 1 else 0) \<and> unknownEvents e = []"
  by (auto simp add: tryDummy_def emptyBundle_def eventCount_def
        split: parse_result.splits option.splits if_splits)

lemma trySchemas_count:
  "trySchemas rt log emptyBundle = (e, p) \<Longrightarrow>
     eventCount e = (if p then 1 else 0) \<and> unknownEvents e = []"
  unfolding trySchemas_def
  by (auto split: attempt.splits if_splits
        dest!: tryERC20_count tryERC721_count tryDummy_count)
     (simp_all add: eventCount_def emptyBundle_def)

lemma eventCount_merge: "eventCount (merge b e) = eventCount b + eventCount e - length (unknownEvents e)"
  by (simp add: eventCount_def merge_def)

lemma one_event_per_log:
  "eventCount (parseLogs_step rt b log) =
     eventCount b + (if snd (trySchemas rt log emptyBundle) \<or> topics log \<noteq> [] then 1 else 0)"
proof (cases "snd (trySchemas rt log emptyBundle)")
  case True
  obtain e where e: "trySchemas rt log emptyBundle = (e, True)"
    using True by (cases "trySchemas rt log emptyBundle") auto
  from trySchemas_count [OF e] have "eventCount e = 1" and "unknownEvents e = []"
    by simp_all
  then show ?thesis
    using True e by (simp add: step_parsed eventCount_merge)
next
  case False
  then show ?thesis
    by (simp add: step_unparsed addUnknown_def eventCount_def)
qed

subsection \<open>Logs of the dispute contract\<close>

text \<open>
  A later attempt runs only in the \<open>catch\<close> block of the one before it. When the
  ERC-20 interface answers \<open>null\<close>, the answer that the source itself tests for with
  \<open>parsedLog &&\<close>, nothing is thrown and no other ABI is tried.
\<close>

lemma null_ends_the_attempts:
  "parseLog rt ERC20 log = Null \<Longrightarrow> trySchemas rt log b = (b, False)"
  by (simp add: trySchemas_def tryERC20_def)

text \<open>
  When the two first interfaces throw on a \<open>TransferFailed\<close> log, it reaches the
  dispute ABI and becomes the failure record of scenario A.
\<close>

lemma thrown_rejections_reach_dispute_abi:
  assumes "parseLog rt ERC20 log = Throws" and "parseLog rt ERC721 log = Throws"
    and "parseLog rt MonadDummyContract log =
           Parsed ''TransferFailed'' [JStr sender, JStr recipient, JBig 1500, JStr reason]"
  shows "parseLogs rt [log] contractAddress =
           emptyBundle
             \<lparr>failures :=
                [[(''type'', JStr ''TransferFailed''), (''from'', JStr sender),
                  (''to'', JStr recipient), (''amount'', JStr ''1500''), (''reason'', JStr reason),
                  (''logIndex'', JNum (logIndex log))]],
              contractType := Some ''MonadDummyContract''\<rparr>"
  using assms
  by (simp add: parseLogs_def parseLogs_step_def trySchemas_def tryERC20_def tryERC721_def
        tryDummy_def toString_def arg_def emptyBundle_def toString_nat.simps)

lemma decodeData_first:
  "66 \<le> length d \<Longrightarrow>
     decodeData rt d =
       (case BigInt rt (''0x'' @ take 64 (drop 2 d)) of
          Some v \<Rightarrow> \<lparr>ptype = ''uint256'', pvalue = toString_nat v\<rparr>
        | None \<Rightarrow> \<lparr>ptype = ''bytes'', pvalue = ''0x'' @ take 64 (drop 2 d)\<rparr>)
       # decodeChunks rt (drop 66 d)"
proof -
  assume l: "66 \<le> length d"
  then have ne: "d \<noteq> [] \<and> d \<noteq> ''0x'' \<and> drop 2 d \<noteq> []" by auto
  from l have m: "min (length d - 2) 64 = 64" by simp
  show ?thesis
    using ne m by (simp add: decodeData_def decodeChunks.simps [of rt "drop 2 d"] Let_def)
qed

text \<open>
  Claim C2 at a failing input. The \<open>PartialTransfer\<close> log has the topic of an event
  of the dispute ABI and its arguments decode, yet the ERC-20 interface answers \<open>null\<close>
  for it, so the log is never offered to the dispute ABI: no classified event is
  emitted and the log becomes an unknown event.
\<close>

theorem partial_transfer_log_unclassified:
  "parseLog sample_runtime MonadDummyContract log_partial =
     Parsed ''PartialTransfer'' [JStr alice, JStr bob, JBig 1000, JBig 500]
   \<and> partialTransfers (parseLogs sample_runtime [log_partial] contract) = []
   \<and> transfers (parseLogs sample_runtime [log_partial] contract) = []
   \<and> failures (parseLogs sample_runtime [log_partial] contract) = []
   \<and> map ue_type (unknownEvents (parseLogs sample_runtime [log_partial] contract)) = [''Transfer'']
   \<and> contractType (parseLogs sample_runtime [log_partial] contract) = Some ''Unknown''"
  by (simp add: parse_defs heur_defs sample_defs decodeChunks.simps toString_nat.simps)

text \<open>
  Claim C3 at its own input. The log of scenario A is not recorded among the failures:
  the ERC-20 interface answers \<open>null\<close> for its topic, and the fallback files it under
  the unknown events as a transfer of 1500.
\<close>

theorem scenario_A_lands_in_unknownEvents:
  "topics log_failed = [topic_TransferFailed, alice_topic, bob_topic]
   \<and> parseLog sample_runtime MonadDummyContract log_failed =
       Parsed ''TransferFailed''
         [JStr alice, JStr bob, JBig 1500, JStr ''Amount too high: exceeds 1000'']
   \<and> failures (parseLogs sample_runtime [log_failed] contract) = []
   \<and> map ue_type (unknownEvents (parseLogs sample_runtime [log_failed] contract)) = [''Transfer'']
   \<and> map ue_from (unknownEvents (parseLogs sample_runtime [log_failed] contract)) = [Some alice]
   \<and> map ue_to (unknownEvents (parseLogs sample_runtime [log_failed] contract)) = [Some bob]
   \<and> map ue_amount (unknownEvents (parseLogs sample_runtime [log_failed] contract)) = [Some ''1500'']
   \<and> contractType (parseLogs sample_runtime [log_failed] contract) = Some ''Unknown''"
  by (simp add: parse_defs heuristicEvent_def decodeTopic_def Let_def decodeData_first
        sample_defs toString_nat.simps)

subsection \<open>The fallback decoder\<close>

lemma trySchemas_no_description:
  assumes "\<forall>f. parseLog rt f log = Throws \<or> parseLog rt f log = Null"
  shows "trySchemas rt log b = (b, False)"
proof -
  from assms have a: "parseLog rt ERC20 log = Throws \<or> parseLog rt ERC20 log = Null"
    and b: "parseLog rt ERC721 log = Throws \<or> parseLog rt ERC721 log = Null"
    and c: "parseLog rt MonadDummyContract log = Throws \<or> parseLog rt MonadDummyContract log = Null"
    by blast+
  from a b c show ?thesis
    by (auto simp add: trySchemas_def tryERC20_def tryERC721_def tryDummy_def)
qed

lemma length_decodeChunks: "length (decodeChunks rt s) = length s div 64"
proof (induction rt s rule: decodeChunks.induct)
  case (1 rt s)
  show ?case
  proof (cases "s = []")
    case True
    then show ?thesis by (simp add: decodeChunks.simps)
  next
    case False
    show ?thesis
    proof (cases "64 \<le> length s")
      case True
      with False 1 show ?thesis
        by (subst decodeChunks.simps) (simp add: le_div_geq min_def Let_def)
    next
      case False
      with \<open>s \<noteq> []\<close> 1 show ?thesis
        by (subst decodeChunks.simps) (simp add: min_def Let_def)
    qed
  qed
qed

lemma ptype_decodeChunks:
  "p \<in> set (decodeChunks rt s) \<Longrightarrow> ptype p = ''uint256'' \<or> ptype p = ''bytes''"
proof (induction rt s arbitrary: p rule: decodeChunks.induct)
  case (1 rt s)
  from "1.prems" show ?case
    by (subst (asm) decodeChunks.simps)
       (auto simp add: Let_def split: if_splits option.splits dest: "1.IH")
qed

lemma ptype_decodeTopic:
  "ptype (decodeTopic rt t) = ''address'' \<or> ptype (decodeTopic rt t) = ''bytes32''"
  by (simp add: decodeTopic_def split: option.splits)

lemma heuristicEvent_params:
  "ue_indexedParams (heuristicEvent rt log) = map (decodeTopic rt) (tl (topics log))"
  "ue_nonIndexedParams (heuristicEvent rt log) = decodeData rt (data log)"
  by (simp_all add: heuristicEvent_def Let_def)

lemma heuristicEvent_from:
  "ue_from (heuristicEvent rt log) \<noteq> None \<longleftrightarrow>
     tl (topics log) \<noteq> [] \<and> ptype (decodeTopic rt (hd (tl (topics log)))) = ''address''"
  by (cases "tl (topics log)") (auto simp add: heuristicEvent_def Let_def)

lemma heuristicEvent_to:
  "ue_to (heuristicEvent rt log) \<noteq> None \<longleftrightarrow>
     2 \<le> length (tl (topics log))
     \<and> ptype (decodeTopic rt (tl (topics log) ! 0)) = ''address''
     \<and> ptype (decodeTopic rt (tl (topics log) ! 1)) = ''address''"
  by (auto simp add: heuristicEvent_def Let_def)

lemma decodeChunks_full:
  "64 \<le> length s \<Longrightarrow>
     decodeChunks rt s =
       (case BigInt rt (''0x'' @ take 64 s) of
          Some v \<Rightarrow> \<lparr>ptype = ''uint256'', pvalue = toString_nat v\<rparr>
        | None \<Rightarrow> \<lparr>ptype = ''bytes'', pvalue = ''0x'' @ take 64 s\<rparr>)
       # decodeChunks rt (drop 64 s)"
proof -
  assume l: "64 \<le> length s"
  then have ne: "s \<noteq> []" by auto
  from l have m: "min (length s) 64 = 64" by simp
  show ?thesis
    using ne m by (simp add: decodeChunks.simps [of rt s] Let_def)
qed

lemma nth_decodeChunks:
  "i < length s div 64 \<Longrightarrow>
     decodeChunks rt s ! i =
       (case BigInt rt (''0x'' @ take 64 (drop (64 * i) s)) of
          Some v \<Rightarrow> \<lparr>ptype = ''uint256'', pvalue = toString_nat v\<rparr>
        | None \<Rightarrow> \<lparr>ptype = ''bytes'', pvalue = ''0x'' @ take 64 (drop (64 * i) s)\<rparr>)"
proof (induction rt s arbitrary: i rule: decodeChunks.induct)
  case (1 rt s)
  from "1.prems" have l: "64 \<le> length s"
    by (cases "64 \<le> length s") simp_all
  then have ne: "s \<noteq> []" by auto
  show ?case
  proof (cases i)
    case 0
    then show ?thesis by (simp add: decodeChunks_full [OF l] split: option.splits)
  next
    case (Suc j)
    from "1.prems" l Suc have "j < length (drop 64 s) div 64"
      by (simp add: le_div_geq)
    from "1.IH" [OF ne this] Suc show ?thesis
      by (simp add: decodeChunks_full [OF l] add.commute split: option.splits)
  qed
qed

lemma nth_decodeData:
  "i < length (decodeData rt d) \<Longrightarrow>
     decodeData rt d ! i =
       (case BigInt rt (''0x'' @ take 64 (drop (2 + 64 * i) d)) of
          Some v \<Rightarrow> \<lparr>ptype = ''uint256'', pvalue = toString_nat v\<rparr>
        | None \<Rightarrow> \<lparr>ptype = ''bytes'', pvalue = ''0x'' @ take 64 (drop (2 + 64 * i) d)\<rparr>)"
proof -
  assume a: "i < length (decodeData rt d)"
  then have c: "d \<noteq> [] \<and> d \<noteq> ''0x''" and i: "i < length (drop 2 d) div 64"
    by (auto simp add: decodeData_def length_decodeChunks split: if_splits)
  from nth_decodeChunks [OF i, of rt] c show ?thesis
    by (simp add: decodeData_def add.commute split: option.splits)
qed

lemma heuristicEvent_pattern:
  "(ue_type (heuristicEvent rt log), ue_from (heuristicEvent rt log),
    ue_to (heuristicEvent rt log), ue_amount (heuristicEvent rt log)) =
     (let ps = ue_indexedParams (heuristicEvent rt log);
          ds = ue_nonIndexedParams (heuristicEvent rt log)
      in if 2 \<le> length ps \<and> ptype (ps ! 0) = ''address'' \<and> ptype (ps ! 1) = ''address''
         then (''Transfer'', Some (pvalue (ps ! 0)), Some (pvalue (ps ! 1)),
               if ds \<noteq> [] \<and> ptype (ds ! 0) = ''uint256'' then Some (pvalue (ds ! 0)) else None)
         else if 1 \<le> length ps \<and> ptype (ps ! 0) = ''address''
         then (''SingleAddress'', Some (pvalue (ps ! 0)), None, None)
         else (''Unknown'', None, None, None))"
  by (auto simp add: heuristicEvent_def Let_def)

lemma heuristicEvent_copied:
  "topics log \<noteq> [] \<Longrightarrow> ue_eventSignature (heuristicEvent rt log) = JStr (hd (topics log))"
  "ue_logIndex (heuristicEvent rt log) = logIndex log"
  "ue_rawData (heuristicEvent rt log) = data log"
  by (cases "topics log"; simp add: heuristicEvent_def Let_def)+

text \<open>
  Claim C4, as the code has it. A log with a topic for which no interface returns a
  description adds exactly one unknown event and leaves transfers, failures and partial
  transfers as they were; the contract type becomes \<open>Unknown\<close> only when it was unset.
  Every topic after the first becomes a parameter: the address that \<open>getAddress\<close>
  returns for its last 40 digits when it is 66 characters long and \<open>getAddress\<close>
  accepts them, and otherwise the topic itself as \<open>bytes32\<close>. Every full chunk of 64
  digits of the data becomes a parameter: the decimal digits of the integer when
  \<open>BigInt\<close> accepts the chunk, and otherwise the chunk itself as \<open>bytes\<close>. The pattern
  is read off these parameters: the field \<open>to\<close> is set exactly when the two first of
  these topics decode as addresses; the field \<open>from\<close> is set as soon as the first one
  does.
\<close>

theorem unmatched_log_one_unknown_event:
  assumes "topics log \<noteq> []"
    and "\<forall>f. parseLog rt f log = Throws \<or> parseLog rt f log = Null"
  shows "transfers (parseLogs_step rt b log) = transfers b
     \<and> failures (parseLogs_step rt b log) = failures b
     \<and> partialTransfers (parseLogs_step rt b log) = partialTransfers b
     \<and> unknownEvents (parseLogs_step rt b log) = unknownEvents b @ [heuristicEvent rt log]
     \<and> contractType (parseLogs_step rt b log) =
           (if unset (contractType b) then Some ''Unknown'' else contractType b)
     \<and> parseLogs_step rt b log =
           b\<lparr>unknownEvents := unknownEvents b @ [heuristicEvent rt log],
             contractType :=
               (if unset (contractType b) then Some ''Unknown'' else contractType b)\<rparr>
     \<and> ue_eventSignature (heuristicEvent rt log) = JStr (hd (topics log))
     \<and> ue_logIndex (heuristicEvent rt log) = logIndex log
     \<and> ue_rawData (heuristicEvent rt log) = data log
     \<and> length (ue_indexedParams (heuristicEvent rt log)) = length (topics log) - 1
     \<and> (i < length (topics log) - 1 \<longrightarrow>
           ue_indexedParams (heuristicEvent rt log) ! i =
             (if length (topics log ! Suc i) = 66 then
                (case getAddress rt (''0x'' @ drop 26 (topics log ! Suc i)) of
                   Some adr \<Rightarrow> \<lparr>ptype = ''address'', pvalue = adr\<rparr>
                 | None \<Rightarrow> \<lparr>ptype = ''bytes32'', pvalue = topics log ! Suc i\<rparr>)
              else \<lparr>ptype = ''bytes32'', pvalue = topics log ! Suc i\<rparr>))
     \<and> length (ue_nonIndexedParams (heuristicEvent rt log)) =
           (if data log \<noteq> [] \<and> data log \<noteq> ''0x'' then (length (data log) - 2) div 64 else 0)
     \<and> (j < length (ue_nonIndexedParams (heuristicEvent rt log)) \<longrightarrow>
           ue_nonIndexedParams (heuristicEvent rt log) ! j =
             (case BigInt rt (''0x'' @ take 64 (drop (2 + 64 * j) (data log))) of
                Some v \<Rightarrow> \<lparr>ptype = ''uint256'', pvalue = toString_nat v\<rparr>
              | None \<Rightarrow>
                  \<lparr>ptype = ''bytes'', pvalue = ''0x'' @ take 64 (drop (2 + 64 * j) (data log))\<rparr>))
     \<and> (ue_type (heuristicEvent rt log), ue_from (heuristicEvent rt log),
         ue_to (heuristicEvent rt log), ue_amount (heuristicEvent rt log)) =
          (let ps = ue_indexedParams (heuristicEvent rt log);
               ds = ue_nonIndexedParams (heuristicEvent rt log)
           in if 2 \<le> length ps \<and> ptype (ps ! 0) = ''address'' \<and> ptype (ps ! 1) = ''address''
              then (''Transfer'', Some (pvalue (ps ! 0)), Some (pvalue (ps ! 1)),
                    if ds \<noteq> [] \<and> ptype (ds ! 0) = ''uint256'' then Some (pvalue (ds ! 0))
                    else None)
              else if 1 \<le> length ps \<and> ptype (ps ! 0) = ''address''
              then (''SingleAddress'', Some (pvalue (ps ! 0)), None, None)
              else (''Unknown'', None, None, None))
     \<and> (\<forall>p \<in> set (ue_indexedParams (heuristicEvent rt log)).
           ptype p = ''address'' \<or> ptype p = ''bytes32'')
     \<and> (\<forall>p \<in> set (ue_nonIndexedParams (heuristicEvent rt log)).
           ptype p = ''uint256'' \<or> ptype p = ''bytes'')
     \<and> (ue_to (heuristicEvent rt log) \<noteq> None \<longleftrightarrow>
           2 \<le> length (tl (topics log))
           \<and> ptype (decodeTopic rt (tl (topics log) ! 0)) = ''address''
           \<and> ptype (decodeTopic rt (tl (topics log) ! 1)) = ''address'')
     \<and> (ue_from (heuristicEvent rt log) \<noteq> None \<longleftrightarrow>
           tl (topics log) \<noteq> [] \<and> ptype (decodeTopic rt (hd (tl (topics log)))) = ''address'')"
proof -
  have step: "parseLogs_step rt b log = addUnknown rt log b"
    using assms by (simp add: parseLogs_step_def trySchemas_no_description)
  have ip: "\<forall>p \<in> set (ue_indexedParams (heuristicEvent rt log)).
              ptype p = ''address'' \<or> ptype p = ''bytes32''"
    using ptype_decodeTopic by (auto simp add: heuristicEvent_params)
  have np: "\<forall>p \<in> set (ue_nonIndexedParams (heuristicEvent rt log)).
              ptype p = ''uint256'' \<or> ptype p = ''bytes''"
    using ptype_decodeChunks by (auto simp add: heuristicEvent_params decodeData_def)
  have ith: "i < length (topics log) - 1 \<longrightarrow>
           ue_indexedParams (heuristicEvent rt log) ! i =
             (if length (topics log ! Suc i) = 66 then
                (case getAddress rt (''0x'' @ drop 26 (topics log ! Suc i)) of
                   Some adr \<Rightarrow> \<lparr>ptype = ''address'', pvalue = adr\<rparr>
                 | None \<Rightarrow> \<lparr>ptype = ''bytes32'', pvalue = topics log ! Suc i\<rparr>)
              else \<lparr>ptype = ''bytes32'', pvalue = topics log ! Suc i\<rparr>)"
    by (simp add: heuristicEvent_params decodeTopic_def nth_tl)
  have jth: "j < length (ue_nonIndexedParams (heuristicEvent rt log)) \<longrightarrow>
           ue_nonIndexedParams (heuristicEvent rt log) ! j =
             (case BigInt rt (''0x'' @ take 64 (drop (2 + 64 * j) (data log))) of
                Some v \<Rightarrow> \<lparr>ptype = ''uint256'', pvalue = toString_nat v\<rparr>
              | None \<Rightarrow>
                  \<lparr>ptype = ''bytes'', pvalue = ''0x'' @ take 64 (drop (2 + 64 * j) (data log))\<rparr>)"
    by (simp add: heuristicEvent_params nth_decodeData)
  have lens: "length (ue_indexedParams (heuristicEvent rt log)) = length (topics log) - 1"
    "length (ue_nonIndexedParams (heuristicEvent rt log)) =
           (if data log \<noteq> [] \<and> data log \<noteq> ''0x'' then (length (data log) - 2) div 64 else 0)"
    by (simp_all add: heuristicEvent_params decodeData_def length_decodeChunks)
  have frame: "transfers (parseLogs_step rt b log) = transfers b
     \<and> failures (parseLogs_step rt b log) = failures b
     \<and> partialTransfers (parseLogs_step rt b log) = partialTransfers b
     \<and> unknownEvents (parseLogs_step rt b log) = unknownEvents b @ [heuristicEvent rt log]
     \<and> contractType (parseLogs_step rt b log) =
           (if unset (contractType b) then Some ''Unknown'' else contractType b)
     \<and> parseLogs_step rt b log =
           b\<lparr>unknownEvents := unknownEvents b @ [heuristicEvent rt log],
             contractType :=
               (if unset (contractType b) then Some ''Unknown'' else contractType b)\<rparr>"
    by (simp add: step addUnknown_def)
  from frame heuristicEvent_copied(1) [OF assms(1), of rt] heuristicEvent_copied(2,3) [of rt log]
    lens ith jth heuristicEvent_pattern [of rt log] ip np
    heuristicEvent_to [of rt log] heuristicEvent_from [of rt log]
  show ?thesis by blast
qed

text \<open>
  The statement at the deposit log, which has one address topic and one chunk of data.
\<close>

theorem unmatched_log_one_unknown_event_witness:
  "topics log_deposit \<noteq> []
   \<and> (\<forall>f. parseLog sample_runtime f log_deposit = Throws \<or> parseLog sample_runtime f log_deposit = Null)
   \<and> unknownEvents (parseLogs_step sample_runtime emptyBundle log_deposit)
        = [heuristicEvent sample_runtime log_deposit]
   \<and> transfers (parseLogs_step sample_runtime emptyBundle log_deposit) = []
   \<and> ue_to (heuristicEvent sample_runtime log_deposit) = None
   \<and> ue_indexedParams (heuristicEvent sample_runtime log_deposit) ! 0
        = \<lparr>ptype = ''address'', pvalue = alice\<rparr>
   \<and> ue_nonIndexedParams (heuristicEvent sample_runtime log_deposit) ! 0
        = \<lparr>ptype = ''uint256'', pvalue = ''500''\<rparr>
   \<and> ue_type (heuristicEvent sample_runtime log_deposit) = ''SingleAddress''
   \<and> ue_from (heuristicEvent sample_runtime log_deposit) = Some alice"
proof -
  have h1: "topics log_deposit \<noteq> []"
    by (simp add: log_deposit_def)
  have h2: "\<forall>f. parseLog sample_runtime f log_deposit = Throws
               \<or> parseLog sample_runtime f log_deposit = Null"
  proof
    fix f
    show "parseLog sample_runtime f log_deposit = Throws
            \<or> parseLog sample_runtime f log_deposit = Null"
      by (cases f) (simp_all add: sample_defs)
  qed
  note t = unmatched_log_one_unknown_event [OF h1 h2, where b = emptyBundle and i = 0 and j = 0]
  have l1: "length (topics log_deposit) - 1 = 1" and l2: "length (tl (topics log_deposit)) = 1"
    and l3: "(length (data log_deposit) - 2) div 64 = 1"
    and l4: "data log_deposit \<noteq> [] \<and> data log_deposit \<noteq> ''0x''"
    by (simp_all add: log_deposit_def)
  have t0: "topics log_deposit ! Suc 0 = alice_topic"
    by (simp add: log_deposit_def)
  have adr: "getAddress sample_runtime (''0x'' @ drop 26 alice_topic) = Some alice"
    and len: "length alice_topic = 66"
    by (simp_all add: sample_runtime_def sample_getAddress_def alice_topic_def alice_def)
  have big: "BigInt sample_runtime (''0x'' @ take 64 (drop (2 + 64 * 0) (data log_deposit))) = Some 500"
    by (simp add: sample_runtime_def sample_BigInt_def hexDigit_def log_deposit_def)
  have dec: "toString_nat 500 = ''500''"
    by (simp add: toString_nat.simps)
  from t l1 t0 adr len have ip: "ue_indexedParams (heuristicEvent sample_runtime log_deposit) ! 0
        = \<lparr>ptype = ''address'', pvalue = alice\<rparr>"
    by simp
  from t l1 have ipl: "length (ue_indexedParams (heuristicEvent sample_runtime log_deposit)) = 1"
    by simp
  from t l3 l4 have dl: "length (ue_nonIndexedParams (heuristicEvent sample_runtime log_deposit)) = 1"
    by simp
  from t dl big dec have np: "ue_nonIndexedParams (heuristicEvent sample_runtime log_deposit) ! 0
        = \<lparr>ptype = ''uint256'', pvalue = ''500''\<rparr>"
    by simp
  from t ip ipl have pat: "ue_type (heuristicEvent sample_runtime log_deposit) = ''SingleAddress''
      \<and> ue_from (heuristicEvent sample_runtime log_deposit) = Some alice
      \<and> ue_to (heuristicEvent sample_runtime log_deposit) = None"
    by (simp add: Let_def)
  from t have fr: "unknownEvents (parseLogs_step sample_runtime emptyBundle log_deposit)
        = [heuristicEvent sample_runtime log_deposit]
      \<and> transfers (parseLogs_step sample_runtime emptyBundle log_deposit) = []"
    by (simp add: emptyBundle_def)
  from h1 h2 ip np pat fr show ?thesis by blast
qed

text \<open>
  Claim C4 as the specification states it fails for \<open>from\<close>: the deposit log has a
  single topic after the first, and its unknown event has \<open>from\<close> set.
\<close>

theorem single_address_sets_from:
  "map ue_from (unknownEvents (parseLogs sample_runtime [log_deposit] contract)) = [Some alice]
   \<and> map ue_to (unknownEvents (parseLogs sample_runtime [log_deposit] contract)) = [None]
   \<and> map ptype (map (decodeTopic sample_runtime) (tl (topics log_deposit))) = [''address'']"
  by (simp add: parse_defs heur_defs sample_defs decodeChunks.simps toString_nat.simps)




text \<open>
  Claim C10. A log without topics, for which no interface returns a description,
  leaves the bundle as it was: no event in any of the four sequences, and the contract
  type untouched.
\<close>

theorem no_topics_no_event:
  assumes "topics log = []"
    and "\<forall>f. parseLog rt f log = Throws \<or> parseLog rt f log = Null"
  shows "parseLogs_step rt b log = b"
  using assms by (simp add: parseLogs_step_def trySchemas_no_description)

text \<open>
  The statement at the sample log without topics.
\<close>

theorem no_topics_no_event_witness:
  "topics log_anonymous = []
   \<and> (\<forall>f. parseLog sample_runtime f log_anonymous = Throws
            \<or> parseLog sample_runtime f log_anonymous = Null)
   \<and> parseLogs_step sample_runtime emptyBundle log_anonymous = emptyBundle"
proof -
  have h1: "topics log_anonymous = []"
    by (simp add: log_anonymous_def)
  have h2: "\<forall>f. parseLog sample_runtime f log_anonymous = Throws
               \<or> parseLog sample_runtime f log_anonymous = Null"
    by (simp add: sample_runtime_def sample_parseLog_def h1)
  from no_topics_no_event [OF h1 h2, of emptyBundle] h1 h2 show ?thesis
    by simp
qed

section \<open>Properties of the historical step\<close>

lemmas surroundings_defs =
  sample_provider_def sample_reads_def sample_transaction_def receipt_deposit_def
  receipt_erc20_def contract_def

lemma getHistoricalLogs_default:
  "getHistoricalLogs p a None =
     (case getBlockNumber p of
        None \<Rightarrow> ([], [GetBlockNumber])
      | Some cur \<Rightarrow>
          (case getLogs p a (max 0 (cur - 1000)) cur of None \<Rightarrow> [] | Some found \<Rightarrow> found,
           [GetBlockNumber, GetLogs a (max 0 (cur - 1000)) cur]))"
  by (simp add: getHistoricalLogs_def Let_def split: option.splits)

text \<open>
  Claim C6. In a request that has a receipt, the provider is called for historical
  logs exactly when the logs of the receipt gave no transfer. The run then asks for the
  block number and, when it gets one, makes one log query for the same contract address
  from block \<open>max 0 (current - 1000)\<close> to the current block; the logs found are parsed
  again and only their transfers are appended: failures, partial transfers, unknown
  events and the contract type stay those of the receipt. There is at most one log
  query in a request.
\<close>

theorem backfill_iff_no_transfers:
  assumes "resolveDispute rt p c (Some rc) tx a toAddress = Some dd"
  shows "(dd_rpcCalls dd \<noteq> [] \<longleftrightarrow> transfers (parseLogs rt (logs rc) a) = [])
     \<and> dd_rpcCalls dd =
         (if transfers (parseLogs rt (logs rc) a) = [] then
            (case getBlockNumber p of
               None \<Rightarrow> [GetBlockNumber]
             | Some cur \<Rightarrow> [GetBlockNumber, GetLogs a (max 0 (cur - 1000)) cur])
          else [])
     \<and> dd_historicalLogs dd = fst (if transfers (parseLogs rt (logs rc) a) = []
                                     then getHistoricalLogs p a None else ([], []))
     \<and> transfers (dd_parsedLogs dd) =
         transfers (parseLogs rt (logs rc) a) @ transfers (parseLogs rt (dd_historicalLogs dd) a)
     \<and> failures (dd_parsedLogs dd) = failures (parseLogs rt (logs rc) a)
     \<and> partialTransfers (dd_parsedLogs dd) = partialTransfers (parseLogs rt (logs rc) a)
     \<and> unknownEvents (dd_parsedLogs dd) = unknownEvents (parseLogs rt (logs rc) a)
     \<and> contractType (dd_parsedLogs dd) = contractType (parseLogs rt (logs rc) a)
     \<and> length (filter (\<lambda>q. q \<noteq> GetBlockNumber) (dd_rpcCalls dd)) \<le> 1"
proof (cases "transfers (parseLogs rt (logs rc) a) = []")
  case True
  have e: "transfers (parseLogs rt [] a) = []"
    by (simp add: parseLogs_def emptyBundle_def)
  from assms True show ?thesis
    by (auto simp add: resolveDispute_def historicalStep_def Let_def getHistoricalLogs_default e
          split: option.splits prod.splits)
next
  case False
  have e: "transfers (parseLogs rt [] a) = []"
    by (simp add: parseLogs_def emptyBundle_def)
  from assms False show ?thesis
    by (auto simp add: resolveDispute_def historicalStep_def Let_def e)
qed

text \<open>
  The statement at a receipt that holds only the deposit log, on a chain at block 500:
  the lower bound is clamped to block 0 and the ERC-20 transfer found is appended.
\<close>

theorem backfill_iff_no_transfers_witness:
  "\<exists>dd. resolveDispute sample_runtime sample_provider sample_reads (Some receipt_deposit)
           sample_transaction contract (Some bob) = Some dd
        \<and> dd_rpcCalls dd = [GetBlockNumber, GetLogs contract 0 500]
        \<and> dd_historicalLogs dd = [log_erc20]
        \<and> map (\<lambda>e. field e ''type'') (transfers (dd_parsedLogs dd)) = [JStr ''ERC20'']
        \<and> failures (dd_parsedLogs dd) = []"
proof -
  obtain dd where dd: "resolveDispute sample_runtime sample_provider sample_reads
      (Some receipt_deposit) sample_transaction contract (Some bob) = Some dd"
    by (cases "historicalStep sample_runtime sample_provider contract
                 (parseLogs sample_runtime (logs receipt_deposit) contract)")
       (auto simp add: resolveDispute_def Let_def)
  have none: "transfers (parseLogs sample_runtime (logs receipt_deposit) contract) = []"
    and nofail: "failures (parseLogs sample_runtime (logs receipt_deposit) contract) = []"
    by (simp_all add: receipt_deposit_def parse_defs heur_defs sample_defs decodeChunks.simps
          toString_nat.simps)
  have hist: "getHistoricalLogs sample_provider contract None =
      ([log_erc20], [GetBlockNumber, GetLogs contract 0 500])"
    by (simp add: getHistoricalLogs_def sample_provider_def Let_def)
  have found: "map (\<lambda>e. field e ''type'') (transfers (parseLogs sample_runtime [log_erc20] contract))
      = [JStr ''ERC20'']"
    by (simp add: parse_defs sample_defs toString_nat.simps field_def)
  have block: "getBlockNumber sample_provider = Some 500"
    by (simp add: sample_provider_def)
  from backfill_iff_no_transfers [OF dd] none nofail hist found block
  have "dd_rpcCalls dd = [GetBlockNumber, GetLogs contract 0 500]
        \<and> dd_historicalLogs dd = [log_erc20]
        \<and> map (\<lambda>e. field e ''type'') (transfers (dd_parsedLogs dd)) = [JStr ''ERC20'']
        \<and> failures (dd_parsedLogs dd) = []"
    by simp
  with dd show ?thesis by (intro exI [of _ dd]) simp
qed

section \<open>Properties of analyzeTransactionPattern\<close>

lemma eventPattern_interaction:
  "contractInteraction (foldl eventPattern an evs) = contractInteraction an"
  by (induction evs arbitrary: an) (simp_all add: eventPattern_def)

lemma eventPattern_type:
  "transactionType (foldl eventPattern an evs) = transactionType an"
  by (induction evs arbitrary: an) (simp_all add: eventPattern_def)

lemma eventPattern_eth:
  "''ETH_TRANSFER'' \<in> set (patterns (foldl eventPattern an evs))
     \<longleftrightarrow> ''ETH_TRANSFER'' \<in> set (patterns an)"
  by (induction evs arbitrary: an) (simp_all add: eventPattern_def)

lemma eventPattern_token:
  "''TOKEN_TRANSFER'' \<in> set (patterns (foldl eventPattern an evs))
     \<longleftrightarrow> ''TOKEN_TRANSFER'' \<in> set (patterns an)
         \<or> (\<exists>ev \<in> set evs. ue_type ev = ''Transfer'' \<and> \<not> unset (ue_amount ev))"
  by (induction evs arbitrary: an) (auto simp add: eventPattern_def)

text \<open>
  Claim C7, as the code has it. The label follows the fixed priority over three
  signals: value sent (the value of the transaction is positive), contract interaction
  (the transaction has a recipient and call data other than \<open>0x\<close>), and token
  transfer (some unknown event, that is an event of the fallback decoder, has type
  \<open>Transfer\<close> and an amount). Transfers that a schema classified are not looked at.
  In particular a receipt without logs, with no value sent and no call data, gives the
  label \<open>unknown\<close> and no pattern tag.
\<close>

theorem transactionType_decision_table:
  "transactionType (analyzeTransactionPattern tx rc pl) =
     (let valueSent = (tx_value tx > 0);
          interaction = (\<not> unset (tx_to tx) \<and> tx_data tx \<noteq> [] \<and> tx_data tx \<noteq> ''0x'');
          tokenEvent = (\<exists>ev \<in> set (unknownEvents pl).
                          ue_type ev = ''Transfer'' \<and> \<not> unset (ue_amount ev))
      in if valueSent \<and> interaction then ''contract_eth_transfer''
         else if tokenEvent then ''token_transfer''
         else if interaction then ''contract_call''
         else if valueSent then ''eth_transfer''
         else ''unknown'')
   \<and> (tx_value tx = 0 \<and> (tx_data tx = [] \<or> tx_data tx = ''0x'') \<longrightarrow>
        transactionType (analyzeTransactionPattern tx rc (parseLogs rt [] a)) = ''unknown''
        \<and> patterns (analyzeTransactionPattern tx rc (parseLogs rt [] a)) = [])"
proof -
  have e: "unknownEvents (parseLogs rt [] a) = []"
    by (simp add: parseLogs_def emptyBundle_def)
  have table: "transactionType (analyzeTransactionPattern tx rc pl) =
     (let valueSent = (tx_value tx > 0);
          interaction = (\<not> unset (tx_to tx) \<and> tx_data tx \<noteq> [] \<and> tx_data tx \<noteq> ''0x'');
          tokenEvent = (\<exists>ev \<in> set (unknownEvents pl).
                          ue_type ev = ''Transfer'' \<and> \<not> unset (ue_amount ev))
      in if valueSent \<and> interaction then ''contract_eth_transfer''
         else if tokenEvent then ''token_transfer''
         else if interaction then ''contract_call''
         else if valueSent then ''eth_transfer''
         else ''unknown'')"
    by (cases "unknownEvents pl = []")
       (auto simp add: analyzeTransactionPattern_def Let_def eventPattern_interaction
          eventPattern_eth eventPattern_token eventPattern_type)
  have quiet: "tx_value tx = 0 \<and> (tx_data tx = [] \<or> tx_data tx = ''0x'') \<longrightarrow>
        transactionType (analyzeTransactionPattern tx rc (parseLogs rt [] a)) = ''unknown''
        \<and> patterns (analyzeTransactionPattern tx rc (parseLogs rt [] a)) = []"
    by (auto simp add: analyzeTransactionPattern_def Let_def e)
  from table quiet show ?thesis by blast
qed

text \<open>
  The statement at scenario C: the sample transaction on an empty list of logs.
\<close>

theorem transactionType_decision_table_witness:
  "tx_value sample_transaction = 0 \<and> tx_data sample_transaction = ''0x''
   \<and> transactionType (analyzeTransactionPattern sample_transaction receipt_deposit
        (parseLogs sample_runtime [] contract)) = ''unknown''
   \<and> patterns (analyzeTransactionPattern sample_transaction receipt_deposit
        (parseLogs sample_runtime [] contract)) = []"
proof -
  have h: "tx_value sample_transaction = 0 \<and> tx_data sample_transaction = ''0x''"
    by (simp add: sample_transaction_def)
  with transactionType_decision_table
         [of sample_transaction receipt_deposit "emptyBundle" sample_runtime contract]
  show ?thesis by blast
qed

text \<open>
  Claim C7 as the specification states it fails: a bundle with an ERC-20 transfer of
  500 that a schema classified is labelled \<open>unknown\<close>, not \<open>token_transfer\<close>; and a
  transaction with call data and no recipient is labelled \<open>unknown\<close>, not
  \<open>contract_call\<close>.
\<close>

theorem schema_transfer_not_counted:
  "map (\<lambda>e. field e ''value'') (transfers (parseLogs sample_runtime [log_erc20] contract))
     = [JStr ''500'']
   \<and> transactionType (analyzeTransactionPattern sample_transaction receipt_erc20
        (parseLogs sample_runtime [log_erc20] contract)) = ''unknown''
   \<and> transactionType (analyzeTransactionPattern
        \<lparr>tx_to = None, tx_data = ''0x6080604052'', tx_value = 0\<rparr> receipt_erc20
        (parseLogs sample_runtime [] contract)) = ''unknown''"
  by (simp add: parse_defs sample_defs toString_nat.simps field_def
        analyzeTransactionPattern_def Let_def surroundings_defs)

section \<open>Properties of getContractState\<close>

lemma foldl_ownershipStep:
  "foldl (ownershipStep c ty t) own es k =
     (let os = List.map_filter
                 (\<lambda>e. if field e ''type'' = JStr ty \<and> field e ''to'' = addressValue t
                           \<and> propertyKey (field e ''tokenId'') = k
                        then ownerOf c (field e ''tokenId'') else None) es
      in if os = [] then own k else Some (last os))"
proof (induction es rule: rev_induct)
  case Nil
  then show ?case by (simp add: List.map_filter_def)
next
  case (snoc e es)
  then show ?case
    by (auto simp add: map_filter_snoc ownershipStep_def Let_def split: option.splits)
qed

lemma readInfoERC20_table:
  "readInfoERC20 c Map.empty =
     (case symbol c of
        None \<Rightarrow> Map.empty
      | Some s \<Rightarrow>
          (case name c of
             None \<Rightarrow> [''symbol'' \<mapsto> JStr s]
           | Some n \<Rightarrow>
               (case decimals c of
                  None \<Rightarrow> [''symbol'' \<mapsto> JStr s, ''name'' \<mapsto> JStr n]
                | Some d \<Rightarrow> [''symbol'' \<mapsto> JStr s, ''name'' \<mapsto> JStr n, ''decimals'' \<mapsto> JBig d])))"
  by (simp add: readInfoERC20_def Let_def split: option.splits)

lemma readInfoERC721_table:
  "readInfoERC721 c Map.empty =
     (case symbol c of
        None \<Rightarrow> Map.empty
      | Some s \<Rightarrow>
          (case name c of
             None \<Rightarrow> [''symbol'' \<mapsto> JStr s]
           | Some n \<Rightarrow> [''symbol'' \<mapsto> JStr s, ''name'' \<mapsto> JStr n]))"
  by (simp add: readInfoERC721_def Let_def split: option.splits)

lemma readInfoMonad_table:
  "readInfoMonad c Map.empty =
     (case getTotalSupply c of
        None \<Rightarrow> Map.empty
      | Some ts \<Rightarrow>
          (case getNextTokenId c of
             None \<Rightarrow> [''totalSupply'' \<mapsto> JBig ts]
           | Some n \<Rightarrow> [''totalSupply'' \<mapsto> JBig ts, ''nextTokenId'' \<mapsto> JBig n]))"
  by (simp add: readInfoMonad_def Let_def split: option.splits)

lemma readBalance_table:
  "readBalance c t Map.empty =
     (case t of
        None \<Rightarrow> Map.empty
      | Some r \<Rightarrow>
          if r = [] then Map.empty
          else (case balanceOf c r of None \<Rightarrow> Map.empty | Some v \<Rightarrow> [r \<mapsto> toString_nat v]))"
  by (simp add: readBalance_def split: option.splits)

text \<open>
  Claim C8, as the code has it. With a contract type that is unset or not one of the
  three families the state is empty. Otherwise the balance of the target address is
  recorded exactly when an address is given and its read answers, whatever the other
  reads do. The metadata reads of a family share one \<open>try\<close> block and are recorded up
  to the first that fails: \<open>symbol\<close>, \<open>name\<close>, \<open>decimals\<close> for ERC-20; \<open>symbol\<close>,
  \<open>name\<close> for ERC-721; \<open>totalSupply\<close>, \<open>nextTokenId\<close> for the dispute contract. Each
  ownership read stands on its own: under a token id the state holds the answer of the
  last read for that id that answered, over the ERC-721 transfers (for the dispute
  contract, the mints) whose destination is the target address; a read that fails
  leaves what the others recorded. Metadata, balance and ownership do not depend on one
  another.
\<close>

theorem state_reads_best_effort:
  "(contractType pl \<notin> {Some ''ERC20'', Some ''ERC721'', Some ''MonadDummyContract''} \<longrightarrow>
      getContractState c a t pl = emptyState)
   \<and> (contractType pl \<in> {Some ''ERC20'', Some ''ERC721'', Some ''MonadDummyContract''} \<longrightarrow>
        balances (getContractState c a t pl) = readBalance c t Map.empty)
   \<and> (t = Some r \<and> r \<noteq> []
           \<and> contractType pl \<in> {Some ''ERC20'', Some ''ERC721'', Some ''MonadDummyContract''} \<longrightarrow>
        balances (getContractState c a t pl) r = map_option toString_nat (balanceOf c r))
   \<and> (symbol c = None \<longrightarrow> state_contractInfo (getContractState c a t pl) ''symbol'' = None)
   \<and> (contractType pl = Some ''ERC20'' \<and> symbol c = None \<longrightarrow>
        state_contractInfo (getContractState c a t pl) = Map.empty)
   \<and> (contractType pl = Some ''ERC20'' \<and> symbol c = Some s \<and> name c = None \<longrightarrow>
        state_contractInfo (getContractState c a t pl) = [''symbol'' \<mapsto> JStr s])
   \<and> ownership (getContractState c a t pl) =
        ownership (getContractState
          (c\<lparr>symbol := s', name := n', decimals := d', getTotalSupply := ts',
             getNextTokenId := ni', balanceOf := bo'\<rparr>) a t pl)
   \<and> state_contractInfo (getContractState c a t pl) =
        state_contractInfo (getContractState (c\<lparr>balanceOf := bo', ownerOf := oo'\<rparr>) a t pl)
   \<and> (contractType pl \<in> {Some ''ERC20'', Some ''ERC721'', Some ''MonadDummyContract''} \<longrightarrow>
        balances (getContractState c a t pl) =
          (case t of
             None \<Rightarrow> Map.empty
           | Some q \<Rightarrow>
               if q = [] then Map.empty
               else (case balanceOf c q of
                       None \<Rightarrow> Map.empty
                     | Some v \<Rightarrow> [q \<mapsto> toString_nat v])))
   \<and> (contractType pl = Some ''ERC20'' \<longrightarrow>
        state_contractInfo (getContractState c a t pl) =
          (case symbol c of
             None \<Rightarrow> Map.empty
           | Some x \<Rightarrow>
               (case name c of
                  None \<Rightarrow> [''symbol'' \<mapsto> JStr x]
                | Some y \<Rightarrow>
                    (case decimals c of
                       None \<Rightarrow> [''symbol'' \<mapsto> JStr x, ''name'' \<mapsto> JStr y]
                     | Some z \<Rightarrow>
                         [''symbol'' \<mapsto> JStr x, ''name'' \<mapsto> JStr y, ''decimals'' \<mapsto> JBig z])))
        \<and> ownership (getContractState c a t pl) = Map.empty)
   \<and> (contractType pl = Some ''ERC721'' \<longrightarrow>
        state_contractInfo (getContractState c a t pl) =
          (case symbol c of
             None \<Rightarrow> Map.empty
           | Some x \<Rightarrow>
               (case name c of
                  None \<Rightarrow> [''symbol'' \<mapsto> JStr x]
                | Some y \<Rightarrow> [''symbol'' \<mapsto> JStr x, ''name'' \<mapsto> JStr y]))
        \<and> ownership (getContractState c a t pl) k =
           (let os = List.map_filter
                       (\<lambda>e. if field e ''type'' = JStr ''ERC721''
                                 \<and> field e ''to'' = addressValue t
                                 \<and> propertyKey (field e ''tokenId'') = k
                              then ownerOf c (field e ''tokenId'') else None)
                       (transfers pl)
            in if os = [] then None else Some (last os)))
   \<and> (contractType pl = Some ''MonadDummyContract'' \<longrightarrow>
        state_contractInfo (getContractState c a t pl) =
          (case getTotalSupply c of
             None \<Rightarrow> Map.empty
           | Some x \<Rightarrow>
               (case getNextTokenId c of
                  None \<Rightarrow> [''totalSupply'' \<mapsto> JBig x]
                | Some y \<Rightarrow> [''totalSupply'' \<mapsto> JBig x, ''nextTokenId'' \<mapsto> JBig y]))
        \<and> ownership (getContractState c a t pl) k =
           (let os = List.map_filter
                       (\<lambda>e. if field e ''type'' = JStr ''TokenMinted''
                                 \<and> field e ''to'' = addressValue t
                                 \<and> propertyKey (field e ''tokenId'') = k
                              then ownerOf c (field e ''tokenId'') else None)
                       (transfers pl)
            in if os = [] then None else Some (last os)))"
proof -
  have own: "ownershipStep (c\<lparr>symbol := s', name := n', decimals := d', getTotalSupply := ts',
             getNextTokenId := ni', balanceOf := bo'\<rparr>) = ownershipStep c"
    by (intro ext) (simp add: ownershipStep_def)
  have info20: "readInfoERC20 (c\<lparr>balanceOf := bo', ownerOf := oo'\<rparr>) = readInfoERC20 c"
    by (cases "symbol c"; cases "name c"; cases "decimals c")
       (simp_all add: readInfoERC20_def fun_eq_iff)
  have info721: "readInfoERC721 (c\<lparr>balanceOf := bo', ownerOf := oo'\<rparr>) = readInfoERC721 c"
    by (cases "symbol c"; cases "name c") (simp_all add: readInfoERC721_def fun_eq_iff)
  have infoM: "readInfoMonad (c\<lparr>balanceOf := bo', ownerOf := oo'\<rparr>) = readInfoMonad c"
    by (cases "getTotalSupply c"; cases "getNextTokenId c")
       (simp_all add: readInfoMonad_def fun_eq_iff)
  have sym: "symbol c = None \<longrightarrow> state_contractInfo (getContractState c a t pl) ''symbol'' = None"
    by (auto simp add: getContractState_def emptyState_def readInfoERC20_def readInfoERC721_def
          readInfoMonad_def Let_def split: option.splits)
  have bal: "t = Some r \<and> r \<noteq> []
           \<and> contractType pl \<in> {Some ''ERC20'', Some ''ERC721'', Some ''MonadDummyContract''} \<longrightarrow>
        balances (getContractState c a t pl) r = map_option toString_nat (balanceOf c r)"
    by (auto simp add: getContractState_def readBalance_def split: option.splits)
  have rest: "(contractType pl \<notin> {Some ''ERC20'', Some ''ERC721'', Some ''MonadDummyContract''} \<longrightarrow>
      getContractState c a t pl = emptyState)
   \<and> (contractType pl \<in> {Some ''ERC20'', Some ''ERC721'', Some ''MonadDummyContract''} \<longrightarrow>
        balances (getContractState c a t pl) = readBalance c t Map.empty)
   \<and> (contractType pl = Some ''ERC20'' \<and> symbol c = None \<longrightarrow>
        state_contractInfo (getContractState c a t pl) = Map.empty)
   \<and> (contractType pl = Some ''ERC20'' \<and> symbol c = Some s \<and> name c = None \<longrightarrow>
        state_contractInfo (getContractState c a t pl) = [''symbol'' \<mapsto> JStr s])"
    by (auto simp add: getContractState_def readInfoERC20_def Let_def)
  have o: "ownership (getContractState c a t pl) =
        ownership (getContractState
          (c\<lparr>symbol := s', name := n', decimals := d', getTotalSupply := ts',
             getNextTokenId := ni', balanceOf := bo'\<rparr>) a t pl)"
    by (simp add: getContractState_def own emptyState_def)
  have i: "state_contractInfo (getContractState c a t pl) =
        state_contractInfo (getContractState (c\<lparr>balanceOf := bo', ownerOf := oo'\<rparr>) a t pl)"
    by (simp add: getContractState_def info20 info721 infoM emptyState_def)
  have b2: "(contractType pl \<in> {Some ''ERC20'', Some ''ERC721'', Some ''MonadDummyContract''} \<longrightarrow>
        balances (getContractState c a t pl) =
          (case t of
             None \<Rightarrow> Map.empty
           | Some q \<Rightarrow>
               if q = [] then Map.empty
               else (case balanceOf c q of
                       None \<Rightarrow> Map.empty
                     | Some v \<Rightarrow> [q \<mapsto> toString_nat v])))"
    by (auto simp add: getContractState_def readBalance_table)
  have f20: "(contractType pl = Some ''ERC20'' \<longrightarrow>
        state_contractInfo (getContractState c a t pl) =
          (case symbol c of
             None \<Rightarrow> Map.empty
           | Some x \<Rightarrow>
               (case name c of
                  None \<Rightarrow> [''symbol'' \<mapsto> JStr x]
                | Some y \<Rightarrow>
                    (case decimals c of
                       None \<Rightarrow> [''symbol'' \<mapsto> JStr x, ''name'' \<mapsto> JStr y]
                     | Some z \<Rightarrow>
                         [''symbol'' \<mapsto> JStr x, ''name'' \<mapsto> JStr y, ''decimals'' \<mapsto> JBig z])))
        \<and> ownership (getContractState c a t pl) = Map.empty)"
    by (simp add: getContractState_def readInfoERC20_table)
  have f721: "(contractType pl = Some ''ERC721'' \<longrightarrow>
        state_contractInfo (getContractState c a t pl) =
          (case symbol c of
             None \<Rightarrow> Map.empty
           | Some x \<Rightarrow>
               (case name c of
                  None \<Rightarrow> [''symbol'' \<mapsto> JStr x]
                | Some y \<Rightarrow> [''symbol'' \<mapsto> JStr x, ''name'' \<mapsto> JStr y]))
        \<and> ownership (getContractState c a t pl) k =
           (let os = List.map_filter
                       (\<lambda>e. if field e ''type'' = JStr ''ERC721''
                                 \<and> field e ''to'' = addressValue t
                                 \<and> propertyKey (field e ''tokenId'') = k
                              then ownerOf c (field e ''tokenId'') else None)
                       (transfers pl)
            in if os = [] then None else Some (last os)))"
    by (simp add: getContractState_def readInfoERC721_table foldl_ownershipStep)
  have fM: "(contractType pl = Some ''MonadDummyContract'' \<longrightarrow>
        state_contractInfo (getContractState c a t pl) =
          (case getTotalSupply c of
             None \<Rightarrow> Map.empty
           | Some x \<Rightarrow>
               (case getNextTokenId c of
                  None \<Rightarrow> [''totalSupply'' \<mapsto> JBig x]
                | Some y \<Rightarrow> [''totalSupply'' \<mapsto> JBig x, ''nextTokenId'' \<mapsto> JBig y]))
        \<and> ownership (getContractState c a t pl) k =
           (let os = List.map_filter
                       (\<lambda>e. if field e ''type'' = JStr ''TokenMinted''
                                 \<and> field e ''to'' = addressValue t
                                 \<and> propertyKey (field e ''tokenId'') = k
                              then ownerOf c (field e ''tokenId'') else None)
                       (transfers pl)
            in if os = [] then None else Some (last os)))"
    by (simp add: getContractState_def readInfoMonad_table foldl_ownershipStep)
  from sym bal rest o i b2 f20 f721 fM show ?thesis by blast
qed

text \<open>
  The statement at scenario B: an ERC-20 bundle and a contract whose \<open>symbol\<close> call
  fails; the balance of the target address is read all the same. And at an ERC-721
  bundle: the owner of token 7, transferred to the target address, is recorded.
\<close>

theorem state_reads_best_effort_witness:
  "contractType (parseLogs sample_runtime [log_erc20] contract) = Some ''ERC20''
   \<and> symbol sample_reads = None
   \<and> state_contractInfo (getContractState sample_reads contract (Some bob)
        (parseLogs sample_runtime [log_erc20] contract)) = Map.empty
   \<and> balances (getContractState sample_reads contract (Some bob)
        (parseLogs sample_runtime [log_erc20] contract)) bob = Some ''500''
   \<and> contractType (parseLogs sample_runtime [log_erc721] contract) = Some ''ERC721''
   \<and> ownership (getContractState sample_reads contract (Some bob)
        (parseLogs sample_runtime [log_erc721] contract)) ''7'' = Some alice"
proof -
  have ct721: "contractType (parseLogs sample_runtime [log_erc721] contract) = Some ''ERC721''"
    and tr721: "transfers (parseLogs sample_runtime [log_erc721] contract) =
      [[(''type'', JStr ''ERC721''), (''from'', JStr alice), (''to'', JStr bob),
        (''tokenId'', JStr ''7''), (''logIndex'', JNum 1)]]"
    by (simp_all add: parse_defs sample_defs toString_nat.simps)
  have own: "ownerOf sample_reads (JStr ''7'') = Some alice"
    by (simp add: sample_reads_def)
  from state_reads_best_effort [where pl = "parseLogs sample_runtime [log_erc721] contract"
        and c = sample_reads and a = contract and t = "Some bob" and k = "''7''"] ct721
  have "ownership (getContractState sample_reads contract (Some bob)
        (parseLogs sample_runtime [log_erc721] contract)) ''7'' =
      (let os = List.map_filter
                  (\<lambda>e. if field e ''type'' = JStr ''ERC721''
                            \<and> field e ''to'' = addressValue (Some bob)
                            \<and> propertyKey (field e ''tokenId'') = ''7''
                         then ownerOf sample_reads (field e ''tokenId'') else None)
                  (transfers (parseLogs sample_runtime [log_erc721] contract))
       in if os = [] then None else Some (last os))"
    by blast
  with tr721 own have o721: "ownership (getContractState sample_reads contract (Some bob)
        (parseLogs sample_runtime [log_erc721] contract)) ''7'' = Some alice"
    by (simp add: List.map_filter_def field_def addressValue_def propertyKey_def Let_def)
  have ct: "contractType (parseLogs sample_runtime [log_erc20] contract) = Some ''ERC20''"
    by (simp add: parse_defs sample_defs toString_nat.simps)
  have sy: "symbol sample_reads = None"
    by (simp add: sample_reads_def)
  have bo: "map_option toString_nat (balanceOf sample_reads bob) = Some ''500''"
    by (simp add: sample_reads_def toString_nat.simps)
  have nb: "bob \<noteq> []" by (simp add: bob_def)
  note t = state_reads_best_effort
         [of "parseLogs sample_runtime [log_erc20] contract" sample_reads contract "Some bob" bob]
  from t ct sy have i: "state_contractInfo (getContractState sample_reads contract (Some bob)
        (parseLogs sample_runtime [log_erc20] contract)) = Map.empty"
    by blast
  from t ct nb have "balances (getContractState sample_reads contract (Some bob)
        (parseLogs sample_runtime [log_erc20] contract)) bob =
        map_option toString_nat (balanceOf sample_reads bob)"
    by blast
  with bo ct sy i ct721 o721 show ?thesis by simp
qed

text \<open>
  Claim C8 as the specification states it fails: the \<open>name\<close> and \<open>decimals\<close> calls
  of the sample contract answer, yet both fields are absent, because the failure of
  \<open>symbol\<close> ended the block that holds the three reads.
\<close>

theorem failed_symbol_ends_metadata_reads:
  "contractType (parseLogs sample_runtime [log_erc20] contract) = Some ''ERC20''
   \<and> symbol sample_reads = None
   \<and> name sample_reads = Some ''Dispute Token''
   \<and> decimals sample_reads = Some 18
   \<and> state_contractInfo (getContractState sample_reads contract (Some bob)
        (parseLogs sample_runtime [log_erc20] contract)) ''name'' = None
   \<and> state_contractInfo (getContractState sample_reads contract (Some bob)
        (parseLogs sample_runtime [log_erc20] contract)) ''decimals'' = None"
  by (simp add: parse_defs sample_defs toString_nat.simps getContractState_def
        readInfoERC20_def sample_reads_def)

section \<open>Properties of initProvider\<close>

lemma initProvider_loop_third:
  "initProvider_loop env (Suc (Suc 0)) tr =
     (if attemptSucceeds env (Suc (Suc (Suc 0))) then
        (Connected (Suc (Suc (Suc 0))), tr @ [Attempt (Suc (Suc (Suc 0)))])
      else (InitError ''Failed to initialize provider after 3 attempts'',
            tr @ [Attempt (Suc (Suc (Suc 0)))]))"
  by (subst initProvider_loop.simps) (simp add: maxRetries_def)

lemma initProvider_loop_second:
  "initProvider_loop env (Suc 0) tr =
     (if attemptSucceeds env (Suc (Suc 0)) then
        (Connected (Suc (Suc 0)), tr @ [Attempt (Suc (Suc 0))])
      else initProvider_loop env (Suc (Suc 0)) (tr @ [Attempt (Suc (Suc 0)), Wait 2000]))"
  by (subst initProvider_loop.simps) (simp add: maxRetries_def)

lemma initProvider_loop_first:
  "initProvider_loop env 0 tr =
     (if attemptSucceeds env (Suc 0) then (Connected (Suc 0), tr @ [Attempt (Suc 0)])
      else initProvider_loop env (Suc 0) (tr @ [Attempt (Suc 0), Wait 1000]))"
  by (subst initProvider_loop.simps) (simp add: maxRetries_def)

text \<open>
  Claim C9. The connection is attempted at most three times. An attempt that succeeds
  ends the loop; after the first failure the run waits 1000 ms and after the second
  2000 ms; the error is thrown only when the third attempt has failed too, with no wait
  after it.
\<close>

theorem initProvider_three_attempts:
  "initProvider env =
     (if attemptSucceeds env 1 then (Connected 1, [Attempt 1])
      else if attemptSucceeds env 2 then (Connected 2, [Attempt 1, Wait 1000, Attempt 2])
      else if attemptSucceeds env 3 then
        (Connected 3, [Attempt 1, Wait 1000, Attempt 2, Wait 2000, Attempt 3])
      else
        (InitError ''Failed to initialize provider after 3 attempts'',
         [Attempt 1, Wait 1000, Attempt 2, Wait 2000, Attempt 3]))"
  by (simp add: initProvider_def initProvider_loop_first initProvider_loop_second
        initProvider_loop_third numeral_2_eq_2 numeral_3_eq_3)

text \<open>
  The statement at an environment in which the third attempt connects.
\<close>

theorem initProvider_three_attempts_witness:
  "initProvider sample_environment =
     (Connected 3, [Attempt 1, Wait 1000, Attempt 2, Wait 2000, Attempt 3])"
  using initProvider_three_attempts [of sample_environment]
  by (simp add: attemptSucceeds_def sample_environment_def rpcUrl_def unset_def)

end
